theory Spec2Isabelle
  imports Main "HOL-Library.Word"
begin

section \<open>The workflow execution context of the history service\<close>

text \<open>
  A shallow embedding of \<^verbatim>\<open>service/history/workflowExecutionContext.go\<close>.
  The context object is a record that every operation takes and returns; storage and
  the engine are an explicit world: the list of storage calls issued so far, the list
  of notifications handed to the engine, and the number of clock readings. What the
  collaborators answer is a parameter: the shard's answers are functions of the number
  of storage calls made before and of the request, the mutable state is an abstract
  type with a record of its operations. A Go panic is an outcome of its own, distinct
  from a returned error. Logging and metrics are left out. The two fields of the
  context that \<open>clear\<close> sets to nil, and the parameters the code tests against nil,
  are options; the pointers inside storage answers and inside the results of closing a
  mutable state are taken to be non-nil, and so are the mutable states and the engine
  that the code dereferences without a test.
\<close>

subsection \<open>Data model\<close>

type_synonym int64 = "64 word"
type_synonym int32 = "32 word"
type_synonym bytes = "8 word list"
type_synonym time = int

datatype error =
    InternalServiceError string
  | BadRequestError string
  | ServiceBusyError
  | EntityNotExistsError
  | WorkflowExecutionAlreadyStartedError
  | ConditionFailedError
  | ErrConflict
  | OtherError string

datatype panic = NilPointerDereference | IndexOutOfRange | InterfaceConversion

datatype 'a outcome = Return 'a | Panic panic

datatype transactionPolicy = transactionPolicyActive | transactionPolicyPassive

text \<open>
  Of the close statuses and workflow states the code names one each; the others are
  kept apart by a number.
\<close>

datatype WorkflowCloseStatus = WorkflowCloseStatusContinuedAsNew | WorkflowCloseStatusOther nat

datatype WorkflowState = WorkflowStateCompleted | WorkflowStateOther nat

record HistoryEvent =
  EventId :: int64
  Version :: int64

record WorkflowExecution =
  WorkflowId :: string
  RunId :: string

record WorkflowEvents =
  we_DomainID :: string
  we_WorkflowID :: string
  we_RunID :: string
  we_BranchToken :: bytes
  we_Events :: "HistoryEvent list"

record HistoryReplicationTask =
  hrt_VisibilityTimestamp :: time
  hrt_TaskID :: int64
  hrt_FirstEventID :: int64
  hrt_NextEventID :: int64
  hrt_Version :: int64
  hrt_EventStoreVersion :: int32
  hrt_BranchToken :: bytes
  hrt_NewRunEventStoreVersion :: int32
  hrt_NewRunBranchToken :: bytes

record GenericTask =
  gt_Type :: nat
  gt_VisibilityTimestamp :: time
  gt_TaskID :: int64
  gt_Version :: int64

text \<open>
  \<^verbatim>\<open>persistence.Task\<close> is an interface; the code tells the history replication
  task from every other implementation by a type assertion.
\<close>

datatype Task = HistoryReplication HistoryReplicationTask | OtherKind GenericTask

record ExecutionStats =
  HistorySize :: int64

record ReplicationState =
  rs_CurrentVersion :: int64
  rs_LastWriteVersion :: int64

record WorkflowExecutionInfo =
  ei_DomainID :: string
  ei_WorkflowID :: string
  ei_RunID :: string
  ei_NextEventID :: int64
  ei_State :: WorkflowState
  ei_CloseStatus :: WorkflowCloseStatus

text \<open>
  The upsert and delete sets of a mutation, and the pending entities of a snapshot, are
  lists of opaque handles: the code only passes them on, builds them empty, or takes
  their length.
\<close>

record WorkflowMutation =
  mu_ExecutionInfo :: WorkflowExecutionInfo
  mu_ExecutionStats :: "ExecutionStats option"
  mu_ReplicationState :: "ReplicationState option"
  mu_UpsertDeleteInfos :: "nat list"
  mu_ClearBufferedEvents :: bool
  mu_TransferTasks :: "Task list"
  mu_ReplicationTasks :: "Task list"
  mu_TimerTasks :: "Task list"
  mu_Condition :: int64

record WorkflowSnapshot =
  sn_ExecutionInfo :: WorkflowExecutionInfo
  sn_ExecutionStats :: "ExecutionStats option"
  sn_ReplicationState :: "ReplicationState option"
  sn_ChildExecutionInfos :: "nat list"
  sn_SignalInfos :: "nat list"
  sn_SignalRequestedIDs :: "string list"
  sn_TransferTasks :: "Task list"
  sn_ReplicationTasks :: "Task list"
  sn_TimerTasks :: "Task list"
  sn_Condition :: int64

record WorkflowMutableState =
  wms_ExecutionInfo :: WorkflowExecutionInfo
  wms_ExecutionStats :: ExecutionStats
  wms_ReplicationState :: "ReplicationState option"

record DomainEntry =
  de_Name :: string
  de_FailoverVersion :: int64
  de_ReplicationPolicy :: nat

subsection \<open>Requests, storage calls and notifications\<close>

record GetWorkflowExecutionRequest =
  gr_DomainID :: string
  gr_Execution :: WorkflowExecution

record GetWorkflowExecutionResponse =
  gr_State :: WorkflowMutableState

record AppendHistoryEventsRequest =
  ah_DomainID :: string
  ah_Execution :: WorkflowExecution
  ah_FirstEventID :: int64
  ah_EventBatchVersion :: int64
  ah_Events :: "HistoryEvent list"

record AppendHistoryNodesRequest =
  an_IsNewBranch :: bool
  an_Info :: string
  an_BranchToken :: bytes
  an_Events :: "HistoryEvent list"

record CreateWorkflowExecutionRequest =
  cr_CreateWorkflowMode :: int
  cr_PreviousRunID :: string
  cr_PreviousLastWriteVersion :: int64
  cr_NewWorkflowSnapshot :: WorkflowSnapshot

record UpdateWorkflowExecutionRequest =
  ur_UpdateWorkflowMutation :: WorkflowMutation
  ur_NewWorkflowSnapshot :: "WorkflowSnapshot option"

record ConflictResolveWorkflowExecutionRequest =
  cf_PrevRunID :: string
  cf_PrevLastWriteVersion :: int64
  cf_PrevState :: int
  cf_ResetWorkflowSnapshot :: WorkflowSnapshot

record ResetWorkflowExecutionRequest =
  rr_BaseRunID :: string
  rr_BaseRunNextEventID :: int64
  rr_CurrentRunID :: string
  rr_CurrentRunNextEventID :: int64
  rr_CurrentWorkflowMutation :: "WorkflowMutation option"
  rr_NewWorkflowSnapshot :: WorkflowSnapshot

datatype storageCall =
    CallGetWorkflowExecution GetWorkflowExecutionRequest
  | CallAppendHistoryEvents AppendHistoryEventsRequest
  | CallAppendHistoryV2Events AppendHistoryNodesRequest string WorkflowExecution
  | CallCreateWorkflowExecution CreateWorkflowExecutionRequest
  | CallUpdateWorkflowExecution UpdateWorkflowExecutionRequest
  | CallConflictResolveWorkflowExecution ConflictResolveWorkflowExecutionRequest
  | CallResetWorkflowExecution ResetWorkflowExecutionRequest

record historyEventNotification =
  hn_domainID :: string
  hn_workflowExecution :: WorkflowExecution
  hn_lastFirstEventID :: int64
  hn_nextEventID :: int64
  hn_previousStartedEventID :: int64
  hn_isWorkflowRunning :: bool
  hn_closeStatus :: WorkflowCloseStatus

datatype notification =
    NotifyNewTransferTasks "Task list"
  | NotifyNewReplicationTasks "Task list"
  | NotifyNewTimerTasks "Task list"
  | NotifyNewHistoryEvent historyEventNotification

record world =
  calls :: "storageCall list"
  notifications :: "notification list"
  clockReads :: nat

text \<open>
  The shard, the execution manager, the domain cache, the cluster metadata and the time
  source, as the answers they give. A storage answer may depend on how many storage
  calls were made before it, so that a retried call can be answered differently. An
  append answers with a size or an error; with an error the size is taken to be 0.
  A create and an update answer with an error or a response, whose content only the
  metrics read.
  The retry policy and the transient-error classifier live in packages outside this
  file: they are the parameters \<open>retryAttempts\<close> (how many further attempts the policy
  allows after the first) and \<open>IsPersistenceTransientError\<close>.
\<close>

record ShardContext =
  IsGlobalDomainEnabled :: bool
  GetDomainByID :: "string \<Rightarrow> error + DomainEntry"
  timeSourceNow :: "nat \<Rightarrow> time"
  retryAttempts :: nat
  IsPersistenceTransientError :: "error \<Rightarrow> bool"
  BuildHistoryGarbageCleanupInfo :: "string \<Rightarrow> string \<Rightarrow> string \<Rightarrow> string"
  GetWorkflowExecution :: "nat \<Rightarrow> GetWorkflowExecutionRequest \<Rightarrow> error + GetWorkflowExecutionResponse"
  AppendHistoryEvents :: "nat \<Rightarrow> AppendHistoryEventsRequest \<Rightarrow> error + int64"
  AppendHistoryV2Events :: "nat \<Rightarrow> AppendHistoryNodesRequest \<Rightarrow> string \<Rightarrow> WorkflowExecution \<Rightarrow> error + int64"
  CreateWorkflowExecution :: "nat \<Rightarrow> CreateWorkflowExecutionRequest \<Rightarrow> error + unit"
  UpdateWorkflowExecution :: "nat \<Rightarrow> UpdateWorkflowExecutionRequest \<Rightarrow> error + unit"
  ConflictResolveWorkflowExecution :: "nat \<Rightarrow> ConflictResolveWorkflowExecutionRequest \<Rightarrow> error option"
  ResetWorkflowExecution :: "nat \<Rightarrow> ResetWorkflowExecutionRequest \<Rightarrow> error option"

text \<open>
  The mutable state is an interface whose implementation is outside this file: an
  abstract type \<open>'ms\<close> with its methods. A method that changes the object returns the
  changed object.
\<close>

record 'ms mutableStateOps =
  newMutableStateBuilderLoad :: "WorkflowMutableState \<Rightarrow> 'ms"
  IsWorkflowExecutionRunning :: "'ms \<Rightarrow> bool"
  GetReplicationState :: "'ms \<Rightarrow> ReplicationState option"
  UpdateReplicationStateVersion :: "'ms \<Rightarrow> int64 \<Rightarrow> bool \<Rightarrow> 'ms"
  UpdateReplicationPolicy :: "'ms \<Rightarrow> nat \<Rightarrow> 'ms"
  CloseTransactionAsMutation ::
    "'ms \<Rightarrow> time \<Rightarrow> transactionPolicy \<Rightarrow> (error + WorkflowMutation \<times> WorkflowEvents list) \<times> 'ms"
  CloseTransactionAsSnapshot ::
    "'ms \<Rightarrow> time \<Rightarrow> transactionPolicy \<Rightarrow> (error + WorkflowSnapshot \<times> WorkflowEvents list) \<times> 'ms"
  GetExecutionInfo :: "'ms \<Rightarrow> WorkflowExecutionInfo"
  GetCurrentVersion :: "'ms \<Rightarrow> int64"
  GetLastFirstEventID :: "'ms \<Rightarrow> int64"
  GetNextEventID :: "'ms \<Rightarrow> int64"
  GetPreviousStartedEventID :: "'ms \<Rightarrow> int64"
  GetHistoryBuilderEvents :: "'ms \<Rightarrow> HistoryEvent list"
  GetCurrentBranch :: "'ms \<Rightarrow> bytes"
  HasBufferedEvents :: "'ms \<Rightarrow> bool"
  FlushBufferedEvents :: "'ms \<Rightarrow> error option \<times> 'ms"

text \<open>
  The context: \<open>msBuilder\<close> and \<open>stats\<close> are the two nullable fields that \<open>clear\<close>
  sets to nil.
\<close>

record 'ms workflowExecutionContextImpl =
  domainID :: string
  workflowExecution :: WorkflowExecution
  msBuilder :: "'ms option"
  stats :: "ExecutionStats option"
  updateCondition :: int64

subsection \<open>The retry harness and the storage calls\<close>

text \<open>
  Modelled from the spec: \<^verbatim>\<open>backoff.Retry\<close> is in a package outside this file. The
  spec has it wrap each storage call in a bounded loop that tries again after a
  transient error and surfaces every other error, and the last error once the bound is
  reached.
\<close>

fun Retry ::
  "nat \<Rightarrow> (world \<Rightarrow> (error + 'r) \<times> world) \<Rightarrow> (error \<Rightarrow> bool) \<Rightarrow> world \<Rightarrow> (error + 'r) \<times> world" where
  "Retry 0 operation isRetryable w = operation w"
| "Retry (Suc n) operation isRetryable w =
     (case operation w of
        (Inr r, w') \<Rightarrow> (Inr r, w')
      | (Inl e, w') \<Rightarrow>
          if isRetryable e then Retry n operation isRetryable w' else (Inl e, w'))"

definition issue :: "storageCall \<Rightarrow> world \<Rightarrow> world" where
  "issue sc w = w\<lparr>calls := calls w @ [sc]\<rparr>"

definition notify :: "notification \<Rightarrow> world \<Rightarrow> world" where
  "notify n w = w\<lparr>notifications := notifications w @ [n]\<rparr>"

definition appendHistoryEventsWithRetry ::
  "ShardContext \<Rightarrow> AppendHistoryEventsRequest \<Rightarrow> world \<Rightarrow> (int64 \<times> error option) \<times> world" where
  "appendHistoryEventsWithRetry S request w =
     (case Retry (retryAttempts S)
             (\<lambda>w. (AppendHistoryEvents S (length (calls w)) request,
                    issue (CallAppendHistoryEvents request) w))
             (IsPersistenceTransientError S) w of
        (Inr resp, w') \<Rightarrow> ((resp, None), w')
      | (Inl err, w') \<Rightarrow> ((0, Some err), w'))"

definition appendHistoryV2EventsWithRetry ::
  "ShardContext \<Rightarrow> string \<Rightarrow> WorkflowExecution \<Rightarrow> AppendHistoryNodesRequest \<Rightarrow> world
     \<Rightarrow> (int64 \<times> error option) \<times> world" where
  "appendHistoryV2EventsWithRetry S domID execution request w =
     (case Retry (retryAttempts S)
             (\<lambda>w. (AppendHistoryV2Events S (length (calls w)) request domID execution,
                    issue (CallAppendHistoryV2Events request domID execution) w))
             (IsPersistenceTransientError S) w of
        (Inr resp, w') \<Rightarrow> ((resp, None), w')
      | (Inl err, w') \<Rightarrow> ((0, Some err), w'))"

subsection \<open>The history appender\<close>

definition persistFirstWorkflowEvents ::
  "ShardContext \<Rightarrow> WorkflowEvents \<Rightarrow> world \<Rightarrow> (int64 \<times> error option) \<times> world" where
  "persistFirstWorkflowEvents S workflowEvents w =
     (case we_Events workflowEvents of
        [] \<Rightarrow>
          ((0, Some (InternalServiceError
                       ''cannot persist first workflow events with empty events'')), w)
      | firstEvent # _ \<Rightarrow>
          let execution = \<lparr>WorkflowId = we_WorkflowID workflowEvents,
                           RunId = we_RunID workflowEvents\<rparr>
          in if length (we_BranchToken workflowEvents) = 0
             then appendHistoryEventsWithRetry S
                    \<lparr>ah_DomainID = we_DomainID workflowEvents,
                     ah_Execution = execution,
                     ah_FirstEventID = EventId firstEvent,
                     ah_EventBatchVersion = Version firstEvent,
                     ah_Events = we_Events workflowEvents\<rparr> w
             else appendHistoryV2EventsWithRetry S (we_DomainID workflowEvents) execution
                    \<lparr>an_IsNewBranch = True,
                     an_Info = BuildHistoryGarbageCleanupInfo S (we_DomainID workflowEvents)
                                 (we_WorkflowID workflowEvents) (we_RunID workflowEvents),
                     an_BranchToken = we_BranchToken workflowEvents,
                     an_Events = we_Events workflowEvents\<rparr> w)"

definition persistNonFirstWorkflowEvents ::
  "ShardContext \<Rightarrow> WorkflowEvents \<Rightarrow> world \<Rightarrow> (int64 \<times> error option) \<times> world" where
  "persistNonFirstWorkflowEvents S workflowEvents w =
     (case we_Events workflowEvents of
        [] \<Rightarrow> ((0, None), w)
      | firstEvent # _ \<Rightarrow>
          let execution = \<lparr>WorkflowId = we_WorkflowID workflowEvents,
                           RunId = we_RunID workflowEvents\<rparr>
          in if length (we_BranchToken workflowEvents) = 0
             then appendHistoryEventsWithRetry S
                    \<lparr>ah_DomainID = we_DomainID workflowEvents,
                     ah_Execution = execution,
                     ah_FirstEventID = EventId firstEvent,
                     ah_EventBatchVersion = Version firstEvent,
                     ah_Events = we_Events workflowEvents\<rparr> w
             else appendHistoryV2EventsWithRetry S (we_DomainID workflowEvents) execution
                    \<lparr>an_IsNewBranch = False,
                     an_Info = [],
                     an_BranchToken = we_BranchToken workflowEvents,
                     an_Events = we_Events workflowEvents\<rparr> w)"

subsection \<open>The execution context: cache and load\<close>

definition clear :: "'ms workflowExecutionContextImpl \<Rightarrow> 'ms workflowExecutionContextImpl" where
  "clear c = c\<lparr>msBuilder := None, stats := None\<rparr>"

definition getHistorySize :: "'ms workflowExecutionContextImpl \<Rightarrow> int64 outcome" where
  "getHistorySize c =
     (case stats c of
        None \<Rightarrow> Panic NilPointerDereference
      | Some st \<Rightarrow> Return (HistorySize st))"

definition setHistorySize ::
  "'ms workflowExecutionContextImpl \<Rightarrow> int64 \<Rightarrow> 'ms workflowExecutionContextImpl outcome" where
  "setHistorySize c n =
     (case stats c of
        None \<Rightarrow> Panic NilPointerDereference
      | Some st \<Rightarrow> Return (c\<lparr>stats := Some (st\<lparr>HistorySize := n\<rparr>)\<rparr>))"

definition getWorkflowExecutionWithRetry ::
  "ShardContext \<Rightarrow> GetWorkflowExecutionRequest \<Rightarrow> world
     \<Rightarrow> (error + GetWorkflowExecutionResponse) \<times> world" where
  "getWorkflowExecutionWithRetry S request w =
     Retry (retryAttempts S)
       (\<lambda>w. (GetWorkflowExecution S (length (calls w)) request,
              issue (CallGetWorkflowExecution request) w))
       (IsPersistenceTransientError S) w"


definition updateWorkflowExecutionWithRetry ::
  "ShardContext \<Rightarrow> UpdateWorkflowExecutionRequest \<Rightarrow> world \<Rightarrow> (error + unit) \<times> world" where
  "updateWorkflowExecutionWithRetry S request w =
     (case Retry (retryAttempts S)
             (\<lambda>w. (UpdateWorkflowExecution S (length (calls w)) request,
                    issue (CallUpdateWorkflowExecution request) w))
             (IsPersistenceTransientError S) w of
        (Inr resp, w') \<Rightarrow> (Inr resp, w')
      | (Inl err, w') \<Rightarrow>
          (case err of
             ConditionFailedError \<Rightarrow> (Inl ErrConflict, w')
           | _ \<Rightarrow> (Inl err, w')))"

definition loadWorkflowExecutionInternal ::
  "ShardContext \<Rightarrow> 'ms mutableStateOps \<Rightarrow> 'ms workflowExecutionContextImpl \<Rightarrow> world
     \<Rightarrow> error option \<times> 'ms workflowExecutionContextImpl \<times> world" where
  "loadWorkflowExecutionInternal S M c w =
     (case msBuilder c of
        Some _ \<Rightarrow> (None, c, w)
      | None \<Rightarrow>
          (case getWorkflowExecutionWithRetry S
                  \<lparr>gr_DomainID = domainID c, gr_Execution = workflowExecution c\<rparr> w of
             (Inl err, w') \<Rightarrow> (Some err, c, w')
           | (Inr response, w') \<Rightarrow>
               (None,
                c\<lparr>msBuilder := Some (newMutableStateBuilderLoad M (gr_State response)),
                  stats := Some (wms_ExecutionStats (gr_State response)),
                  updateCondition := ei_NextEventID (wms_ExecutionInfo (gr_State response))\<rparr>,
                w')))"

definition updateVersion ::
  "ShardContext \<Rightarrow> 'ms mutableStateOps \<Rightarrow> 'ms workflowExecutionContextImpl
     \<Rightarrow> error option outcome \<times> 'ms workflowExecutionContextImpl" where
  "updateVersion S M c =
     (if IsGlobalDomainEnabled S
      then (case msBuilder c of
              None \<Rightarrow> (Panic NilPointerDereference, c)
            | Some ms \<Rightarrow>
                if GetReplicationState M ms \<noteq> None
                then if \<not> IsWorkflowExecutionRunning M ms
                     then (Return None, c)
                     else (case GetDomainByID S (domainID c) of
                             Inl err \<Rightarrow> (Return (Some err), c)
                           | Inr domainEntry \<Rightarrow>
                               (Return None,
                                c\<lparr>msBuilder := Some
                                    (UpdateReplicationPolicy M
                                       (UpdateReplicationStateVersion M ms
                                          (de_FailoverVersion domainEntry) False)
                                       (de_ReplicationPolicy domainEntry))\<rparr>))
                else (Return None, c))
      else (Return None, c))"

text \<open>
  The result of a load is the Go pair: the mutable state (nil beside an error) and the
  error.
\<close>

definition loadWorkflowExecution ::
  "ShardContext \<Rightarrow> 'ms mutableStateOps \<Rightarrow> 'ms workflowExecutionContextImpl \<Rightarrow> world
     \<Rightarrow> ('ms option \<times> error option) outcome \<times> 'ms workflowExecutionContextImpl \<times> world" where
  "loadWorkflowExecution S M c w =
     (case loadWorkflowExecutionInternal S M c w of
        (Some err, c1, w1) \<Rightarrow> (Return (None, Some err), c1, w1)
      | (None, c1, w1) \<Rightarrow>
          (case updateVersion S M c1 of
             (Panic p, c2) \<Rightarrow> (Panic p, c2, w1)
           | (Return (Some err), c2) \<Rightarrow> (Return (None, Some err), c2, w1)
           | (Return None, c2) \<Rightarrow> (Return (msBuilder c2, None), c2, w1)))"

definition loadExecutionStats ::
  "ShardContext \<Rightarrow> 'ms mutableStateOps \<Rightarrow> 'ms workflowExecutionContextImpl \<Rightarrow> world
     \<Rightarrow> (ExecutionStats option \<times> error option) outcome \<times> 'ms workflowExecutionContextImpl \<times> world" where
  "loadExecutionStats S M c w =
     (case loadWorkflowExecution S M c w of
        (Panic p, c1, w1) \<Rightarrow> (Panic p, c1, w1)
      | (Return (_, Some err), c1, w1) \<Rightarrow> (Return (None, Some err), c1, w1)
      | (Return (_, None), c1, w1) \<Rightarrow> (Return (stats c1, None), c1, w1))"

subsection \<open>Notification fanout\<close>

definition notifyTasks :: "Task list \<Rightarrow> Task list \<Rightarrow> Task list \<Rightarrow> world \<Rightarrow> world" where
  "notifyTasks transferTasks replicationTasks timerTasks w =
     notify (NotifyNewTimerTasks timerTasks)
       (notify (NotifyNewReplicationTasks replicationTasks)
          (notify (NotifyNewTransferTasks transferTasks) w))"

subsection \<open>Create and conflict-resolve\<close>


definition conflictResolveWorkflowExecution ::
  "ShardContext \<Rightarrow> 'ms mutableStateOps \<Rightarrow> 'ms workflowExecutionContextImpl \<Rightarrow> time \<Rightarrow> string
     \<Rightarrow> int64 \<Rightarrow> int \<Rightarrow> 'ms \<Rightarrow> int64 \<Rightarrow> world
     \<Rightarrow> ('ms option \<times> error option) outcome \<times> 'ms workflowExecutionContextImpl \<times> world" where
  "conflictResolveWorkflowExecution S M c now prevRunID prevLastWriteVersion prevState
       resetMutableState resetHistorySize w =
     (case fst (CloseTransactionAsSnapshot M resetMutableState now transactionPolicyPassive) of
        Inl err \<Rightarrow> (Return (None, Some err), c, w)
      | Inr (resetWorkflow, workflowEventsSeq) \<Rightarrow>
          if length workflowEventsSeq \<noteq> 0
          then (Return (None, Some (BadRequestError
                  ''reset mutable state should not generate new events'')), c, w)
          else
            let resetWorkflow1 =
                  resetWorkflow\<lparr>sn_ExecutionStats := Some \<lparr>HistorySize = resetHistorySize\<rparr>\<rparr>;
                request =
                  \<lparr>cf_PrevRunID = prevRunID,
                   cf_PrevLastWriteVersion = prevLastWriteVersion,
                   cf_PrevState = prevState,
                   cf_ResetWorkflowSnapshot = resetWorkflow1\<rparr>;
                w1 = issue (CallConflictResolveWorkflowExecution request) w
            in case ConflictResolveWorkflowExecution S (length (calls w)) request of
                 Some err \<Rightarrow> (Return (None, Some err), c, w1)
               | None \<Rightarrow>
                   loadWorkflowExecution S M (clear c)
                     (notifyTasks (sn_TransferTasks resetWorkflow1)
                        (sn_ReplicationTasks resetWorkflow1) (sn_TimerTasks resetWorkflow1) w1))"

subsection \<open>The continue-as-new merge\<close>

text \<open>
  The loop over the current mutation's replication tasks: every history replication
  task gets the new run's branch token and event store version, and the flag records
  whether there was one. The tasks are pointers, so the mutation sees the change.
\<close>

fun mergeLoop :: "bytes \<Rightarrow> int32 \<Rightarrow> Task list \<Rightarrow> bool \<Rightarrow> Task list \<times> bool" where
  "mergeLoop newRunBranchToken newRunEventStoreVersion [] taskUpdated = ([], taskUpdated)"
| "mergeLoop newRunBranchToken newRunEventStoreVersion (replicationTask # rest) taskUpdated =
     (case replicationTask of
        HistoryReplication task \<Rightarrow>
          (let (rest', updated) =
                 mergeLoop newRunBranchToken newRunEventStoreVersion rest True
           in (HistoryReplication
                 (task\<lparr>hrt_NewRunBranchToken := newRunBranchToken,
                       hrt_NewRunEventStoreVersion := newRunEventStoreVersion\<rparr>) # rest',
               updated))
      | OtherKind g \<Rightarrow>
          (let (rest', updated) =
                 mergeLoop newRunBranchToken newRunEventStoreVersion rest taskUpdated
           in (OtherKind g # rest', updated)))"

definition mergeContinueAsNewReplicationTasks ::
  "WorkflowMutation \<Rightarrow> WorkflowSnapshot option
     \<Rightarrow> error option outcome \<times> WorkflowMutation \<times> WorkflowSnapshot option" where
  "mergeContinueAsNewReplicationTasks currentWorkflowMutation newWorkflowSnapshot =
     (if ei_CloseStatus (mu_ExecutionInfo currentWorkflowMutation)
           \<noteq> WorkflowCloseStatusContinuedAsNew
      then (Return None, currentWorkflowMutation, newWorkflowSnapshot)
      else if length (mu_ReplicationTasks currentWorkflowMutation) = 0
      then (Return None, currentWorkflowMutation, newWorkflowSnapshot)
      else
        (case newWorkflowSnapshot of
           None \<Rightarrow>
             (Return (Some (InternalServiceError
                ''unable to find replication task from new workflow for continue as new replication'')),
              currentWorkflowMutation, newWorkflowSnapshot)
         | Some snapshot \<Rightarrow>
             if length (sn_ReplicationTasks snapshot) \<noteq> 1
             then (Return (Some (InternalServiceError
                     ''unable to find replication task from new workflow for continue as new replication'')),
                   currentWorkflowMutation, newWorkflowSnapshot)
             else
               (case sn_ReplicationTasks snapshot ! 0 of
                  OtherKind _ \<Rightarrow>
                    (Panic InterfaceConversion, currentWorkflowMutation, newWorkflowSnapshot)
                | HistoryReplication newRunTask \<Rightarrow>
                    (let snapshot1 = snapshot\<lparr>sn_ReplicationTasks := []\<rparr>;
                         (tasks1, taskUpdated) =
                           mergeLoop (hrt_BranchToken newRunTask)
                             (hrt_EventStoreVersion newRunTask)
                             (mu_ReplicationTasks currentWorkflowMutation) False;
                         mutation1 = currentWorkflowMutation\<lparr>mu_ReplicationTasks := tasks1\<rparr>
                     in if \<not> taskUpdated
                        then (Return (Some (InternalServiceError
                                ''unable to find replication task from current workflow for continue as new replication'')),
                              mutation1, Some snapshot1)
                        else (Return None, mutation1, Some snapshot1)))))"

subsection \<open>The update path\<close>

fun persistNonFirstLoop ::
  "ShardContext \<Rightarrow> WorkflowEvents list \<Rightarrow> int64 \<Rightarrow> world \<Rightarrow> (error + int64) \<times> world" where
  "persistNonFirstLoop S [] currentSize w = (Inr currentSize, w)"
| "persistNonFirstLoop S (workflowEvents # rest) currentSize w =
     (case persistNonFirstWorkflowEvents S workflowEvents w of
        ((eventsSize, Some err), w1) \<Rightarrow> (Inl err, w1)
      | ((eventsSize, None), w1) \<Rightarrow> persistNonFirstLoop S rest (currentSize + eventsSize) w1)"

text \<open>
  Lines 466 to 479: the new run is closed as a snapshot and its first batch persisted.
  The history size of the new context is read before the batch sequence is indexed.
\<close>

definition closeNewWorkflow ::
  "ShardContext \<Rightarrow> 'ms mutableStateOps \<Rightarrow> 'ms workflowExecutionContextImpl \<Rightarrow> 'ms \<Rightarrow> time
     \<Rightarrow> transactionPolicy \<Rightarrow> world
     \<Rightarrow> (error + WorkflowSnapshot) outcome \<times> 'ms workflowExecutionContextImpl \<times> world" where
  "closeNewWorkflow S M newContext newMutableState now newWorkflowTransactionPolicy w =
     (case fst (CloseTransactionAsSnapshot M newMutableState now newWorkflowTransactionPolicy) of
        Inl err \<Rightarrow> (Return (Inl err), newContext, w)
      | Inr (newWorkflow, workflowEventsSeq) \<Rightarrow>
          (case getHistorySize newContext of
             Panic p \<Rightarrow> (Panic p, newContext, w)
           | Return newWorkflowSizeSize \<Rightarrow>
               (case workflowEventsSeq of
                  [] \<Rightarrow> (Panic IndexOutOfRange, newContext, w)
                | firstBatch # _ \<Rightarrow>
                    (case persistFirstWorkflowEvents S firstBatch w of
                       ((eventsSize, Some err), w1) \<Rightarrow> (Return (Inl err), newContext, w1)
                     | ((eventsSize, None), w1) \<Rightarrow>
                         (case setHistorySize newContext (newWorkflowSizeSize + eventsSize) of
                            Panic p \<Rightarrow> (Panic p, newContext, w1)
                          | Return newContext1 \<Rightarrow>
                              (Return (Inr (newWorkflow\<lparr>sn_ExecutionStats :=
                                   Some \<lparr>HistorySize = newWorkflowSizeSize + eventsSize\<rparr>\<rparr>)),
                               newContext1, w1))))))"

text \<open>
  Lines 482 to 549: the merge, the storage update, and what follows a successful
  update.
\<close>

definition commitUpdate ::
  "ShardContext \<Rightarrow> 'ms mutableStateOps \<Rightarrow> 'ms workflowExecutionContextImpl \<Rightarrow> 'ms
     \<Rightarrow> WorkflowMutation \<Rightarrow> WorkflowSnapshot option \<Rightarrow> world
     \<Rightarrow> error option outcome \<times> 'ms workflowExecutionContextImpl \<times> world" where
  "commitUpdate S M c ms currentWorkflow newWorkflow w =
     (case mergeContinueAsNewReplicationTasks currentWorkflow newWorkflow of
        (Panic p, _, _) \<Rightarrow> (Panic p, c, w)
      | (Return (Some err), _, _) \<Rightarrow> (Return (Some err), c, w)
      | (Return None, currentWorkflow1, newWorkflow1) \<Rightarrow>
          (case updateWorkflowExecutionWithRetry S
                  \<lparr>ur_UpdateWorkflowMutation = currentWorkflow1,
                   ur_NewWorkflowSnapshot = newWorkflow1\<rparr> w of
             (Inl err, w1) \<Rightarrow> (Return (Some err), c, w1)
           | (Inr resp, w1) \<Rightarrow>
               (let c1 = c\<lparr>updateCondition :=
                            ei_NextEventID (mu_ExecutionInfo currentWorkflow1)\<rparr>;
                    w2 = notify (NotifyNewHistoryEvent
                           \<lparr>hn_domainID = domainID c,
                            hn_workflowExecution = workflowExecution c,
                            hn_lastFirstEventID = GetLastFirstEventID M ms,
                            hn_nextEventID = GetNextEventID M ms,
                            hn_previousStartedEventID = GetPreviousStartedEventID M ms,
                            hn_isWorkflowRunning = IsWorkflowExecutionRunning M ms,
                            hn_closeStatus = ei_CloseStatus (GetExecutionInfo M ms)\<rparr>) w1;
                    w3 = notifyTasks (mu_TransferTasks currentWorkflow1)
                           (mu_ReplicationTasks currentWorkflow1)
                           (mu_TimerTasks currentWorkflow1) w2;
                    w4 = (case newWorkflow1 of
                            None \<Rightarrow> w3
                          | Some nw \<Rightarrow>
                              notifyTasks (sn_TransferTasks nw) (sn_ReplicationTasks nw)
                                (sn_TimerTasks nw) w3)
                in (Return None, c1, w4))))"

text \<open>
  The body of \<^verbatim>\<open>updateWorkflowExecutionWithNew\<close> without its deferred calls. The
  last component tells whether the second deferred call (the one that clears the new
  context) was registered before the body ended.
\<close>

definition updateWorkflowExecutionWithNewBody ::
  "ShardContext \<Rightarrow> 'ms mutableStateOps \<Rightarrow> 'ms workflowExecutionContextImpl \<Rightarrow> time
     \<Rightarrow> 'ms workflowExecutionContextImpl option \<Rightarrow> 'ms option \<Rightarrow> transactionPolicy
     \<Rightarrow> transactionPolicy option \<Rightarrow> world
     \<Rightarrow> error option outcome \<times> 'ms workflowExecutionContextImpl
         \<times> 'ms workflowExecutionContextImpl option \<times> world \<times> bool" where
  "updateWorkflowExecutionWithNewBody S M c now newContext newMutableState
       currentWorkflowTransactionPolicy newWorkflowTransactionPolicy w =
     (case msBuilder c of
        None \<Rightarrow> (Panic NilPointerDereference, c, newContext, w, False)
      | Some ms0 \<Rightarrow>
          (case CloseTransactionAsMutation M ms0 now currentWorkflowTransactionPolicy of
             (Inl err, ms) \<Rightarrow>
               (Return (Some err), c\<lparr>msBuilder := Some ms\<rparr>, newContext, w, False)
           | (Inr (currentWorkflow, workflowEventsSeq), ms) \<Rightarrow>
               (let c1 = c\<lparr>msBuilder := Some ms\<rparr> in
                case getHistorySize c1 of
                  Panic p \<Rightarrow> (Panic p, c1, newContext, w, False)
                | Return currentWorkflowSize0 \<Rightarrow>
                    (case persistNonFirstLoop S workflowEventsSeq currentWorkflowSize0 w of
                       (Inl err, w1) \<Rightarrow> (Return (Some err), c1, newContext, w1, False)
                     | (Inr currentWorkflowSize, w1) \<Rightarrow>
                         (case setHistorySize c1 currentWorkflowSize of
                            Panic p \<Rightarrow> (Panic p, c1, newContext, w1, False)
                          | Return c2 \<Rightarrow>
                              (let currentWorkflow1 = currentWorkflow\<lparr>mu_ExecutionStats :=
                                     Some \<lparr>HistorySize = currentWorkflowSize\<rparr>\<rparr>
                               in case (newContext, newMutableState, newWorkflowTransactionPolicy) of
                                    (Some nc, Some nms, Some np) \<Rightarrow>
                                      (case closeNewWorkflow S M nc nms now np w1 of
                                         (Panic p, nc1, w2) \<Rightarrow> (Panic p, c2, Some nc1, w2, True)
                                       | (Return (Inl err), nc1, w2) \<Rightarrow>
                                           (Return (Some err), c2, Some nc1, w2, True)
                                       | (Return (Inr newWorkflow), nc1, w2) \<Rightarrow>
                                           (case commitUpdate S M c2 ms currentWorkflow1
                                                   (Some newWorkflow) w2 of
                                              (r, c3, w3) \<Rightarrow> (r, c3, Some nc1, w3, True)))
                                  | _ \<Rightarrow>
                                      (case commitUpdate S M c2 ms currentWorkflow1 None w1 of
                                         (r, c3, w3) \<Rightarrow> (r, c3, newContext, w3, False))))))))"

text \<open>
  The deferred calls run when the body has returned: each clears its context when the
  returned error is not nil. A panic leaves the named result nil, so nothing is
  cleared.
\<close>

definition updateWorkflowExecutionWithNew ::
  "ShardContext \<Rightarrow> 'ms mutableStateOps \<Rightarrow> 'ms workflowExecutionContextImpl \<Rightarrow> time
     \<Rightarrow> 'ms workflowExecutionContextImpl option \<Rightarrow> 'ms option \<Rightarrow> transactionPolicy
     \<Rightarrow> transactionPolicy option \<Rightarrow> world
     \<Rightarrow> error option outcome \<times> 'ms workflowExecutionContextImpl
         \<times> 'ms workflowExecutionContextImpl option \<times> world" where
  "updateWorkflowExecutionWithNew S M c now newContext newMutableState
       currentWorkflowTransactionPolicy newWorkflowTransactionPolicy w =
     (case updateWorkflowExecutionWithNewBody S M c now newContext newMutableState
             currentWorkflowTransactionPolicy newWorkflowTransactionPolicy w of
        (Return (Some retError), c1, newContext1, w1, deferred) \<Rightarrow>
          (Return (Some retError), clear c1,
           (if deferred then map_option clear newContext1 else newContext1), w1)
      | (r, c1, newContext1, w1, _) \<Rightarrow> (r, c1, newContext1, w1))"

definition updateWorkflowExecutionAsActive where
  "updateWorkflowExecutionAsActive S M c now w =
     updateWorkflowExecutionWithNew S M c now None None transactionPolicyActive None w"

definition updateWorkflowExecutionWithNewAsActive where
  "updateWorkflowExecutionWithNewAsActive S M c now newContext newMutableState w =
     updateWorkflowExecutionWithNew S M c now newContext newMutableState
       transactionPolicyActive (Some transactionPolicyActive) w"

definition updateWorkflowExecutionAsPassive where
  "updateWorkflowExecutionAsPassive S M c now w =
     updateWorkflowExecutionWithNew S M c now None None transactionPolicyPassive None w"

definition updateWorkflowExecutionWithNewAsPassive where
  "updateWorkflowExecutionWithNewAsPassive S M c now newContext newMutableState w =
     updateWorkflowExecutionWithNew S M c now newContext newMutableState
       transactionPolicyPassive (Some transactionPolicyPassive) w"

subsection \<open>The reset path\<close>

definition stampTask :: "int64 \<Rightarrow> time \<Rightarrow> Task \<Rightarrow> Task" where
  "stampTask version timestamp task =
     (case task of
        HistoryReplication t \<Rightarrow>
          HistoryReplication (t\<lparr>hrt_Version := version, hrt_VisibilityTimestamp := timestamp\<rparr>)
      | OtherKind g \<Rightarrow>
          OtherKind (g\<lparr>gt_Version := version, gt_VisibilityTimestamp := timestamp\<rparr>))"

text \<open>
  Modelled from the spec: \<^verbatim>\<open>setTaskInfo\<close> is defined in another file of the package.
  The spec has it stamp the task descriptors with the workflow's current version and
  the current time.
\<close>

definition setTaskInfo :: "int64 \<Rightarrow> time \<Rightarrow> Task list \<Rightarrow> Task list \<Rightarrow> Task list \<times> Task list" where
  "setTaskInfo version timestamp transferTasks timerTasks =
     (map (stampTask version timestamp) transferTasks,
      map (stampTask version timestamp) timerTasks)"

definition readClock :: "ShardContext \<Rightarrow> world \<Rightarrow> time \<times> world" where
  "readClock S w = (timeSourceNow S (clockReads w), w\<lparr>clockReads := Suc (clockReads w)\<rparr>)"

text \<open>
  Lines 884 to 900: with \<open>updateCurr\<close> the pending events of the current run are
  appended and their size added to the context's history size.
\<close>

definition resetPersistCurrent ::
  "ShardContext \<Rightarrow> 'ms mutableStateOps \<Rightarrow> 'ms workflowExecutionContextImpl \<Rightarrow> 'ms \<Rightarrow> bool
     \<Rightarrow> world \<Rightarrow> error option outcome \<times> 'ms workflowExecutionContextImpl \<times> world" where
  "resetPersistCurrent S M c currMutableState updateCurr w =
     (if updateCurr
      then
        (let currentExecutionInfo = GetExecutionInfo M currMutableState in
         case persistNonFirstWorkflowEvents S
                \<lparr>we_DomainID = ei_DomainID currentExecutionInfo,
                 we_WorkflowID = ei_WorkflowID currentExecutionInfo,
                 we_RunID = ei_RunID currentExecutionInfo,
                 we_BranchToken = GetCurrentBranch M currMutableState,
                 we_Events = GetHistoryBuilderEvents M currMutableState\<rparr> w of
           ((n, Some err), w1) \<Rightarrow> (Return (Some err), c, w1)
         | ((n, None), w1) \<Rightarrow>
             (case stats c of
                None \<Rightarrow> (Panic NilPointerDereference, c, w1)
              | Some st \<Rightarrow>
                  (Return None,
                   c\<lparr>stats := Some (st\<lparr>HistorySize := HistorySize st + n\<rparr>)\<rparr>, w1)))
      else (Return None, c, w))"

text \<open>
  Lines 904 to 1003: the new run is closed as a snapshot under the passive policy, its
  one batch appended, the request built and submitted.
\<close>

definition resetCommit ::
  "ShardContext \<Rightarrow> 'ms mutableStateOps \<Rightarrow> 'ms workflowExecutionContextImpl \<Rightarrow> 'ms \<Rightarrow> bool
     \<Rightarrow> 'ms \<Rightarrow> int64 \<Rightarrow> Task list \<Rightarrow> Task list \<Rightarrow> Task list \<Rightarrow> Task list
     \<Rightarrow> Task list \<Rightarrow> Task list \<Rightarrow> string \<Rightarrow> int64 \<Rightarrow> world
     \<Rightarrow> error option outcome \<times> 'ms workflowExecutionContextImpl \<times> world" where
  "resetCommit S M c currMutableState updateCurr newMutableState newHistorySize
       currTransferTasks currTimerTasks newTransferTasks newTimerTasks
       currReplicationTasks newReplicationTasks baseRunID baseRunNextEventID w =
     (let (now2, w1) = readClock S w in
      case fst (CloseTransactionAsSnapshot M newMutableState now2 transactionPolicyPassive) of
        Inl err \<Rightarrow> (Return (Some err), c, w1)
      | Inr (resetWorkflow, workflowEventsSeq) \<Rightarrow>
          if length workflowEventsSeq \<noteq> 1
          then (Return (Some (InternalServiceError
                  ''reset workflow execution should generate exactly 1 event batch'')), c, w1)
          else
            (case persistNonFirstLoop S workflowEventsSeq newHistorySize w1 of
               (Inl err, w2) \<Rightarrow> (Return (Some err), c, w2)
             | (Inr newHistorySize1, w2) \<Rightarrow>
                 (let resetWorkflow1 = resetWorkflow
                        \<lparr>sn_ExecutionStats := Some \<lparr>HistorySize = newHistorySize1\<rparr>,
                         sn_TransferTasks := newTransferTasks,
                         sn_ReplicationTasks := newReplicationTasks,
                         sn_TimerTasks := newTimerTasks\<rparr>
                  in if length (sn_ChildExecutionInfos resetWorkflow1) > 0
                        \<or> length (sn_SignalInfos resetWorkflow1) > 0
                        \<or> length (sn_SignalRequestedIDs resetWorkflow1) > 0
                     then (Return (Some (InternalServiceError
                             ''something went wrong, we shouldn't see any pending childWF, sending Signal or signal requested'')),
                           c, w2)
                     else
                       (case (if updateCurr
                              then (case stats c of
                                      None \<Rightarrow> Panic NilPointerDereference
                                    | Some st \<Rightarrow>
                                        Return (Some
                                          \<lparr>mu_ExecutionInfo = GetExecutionInfo M currMutableState,
                                           mu_ExecutionStats =
                                             Some \<lparr>HistorySize = HistorySize st\<rparr>,
                                           mu_ReplicationState =
                                             GetReplicationState M currMutableState,
                                           mu_UpsertDeleteInfos = [],
                                           mu_ClearBufferedEvents = False,
                                           mu_TransferTasks = currTransferTasks,
                                           mu_ReplicationTasks = currReplicationTasks,
                                           mu_TimerTasks = currTimerTasks,
                                           mu_Condition = updateCondition c\<rparr>))
                              else Return None) of
                          Panic p \<Rightarrow> (Panic p, c, w2)
                        | Return currentWorkflowMutation \<Rightarrow>
                            (let resetWFReq =
                                   \<lparr>rr_BaseRunID = baseRunID,
                                    rr_BaseRunNextEventID = baseRunNextEventID,
                                    rr_CurrentRunID =
                                      ei_RunID (GetExecutionInfo M currMutableState),
                                    rr_CurrentRunNextEventID =
                                      ei_NextEventID (GetExecutionInfo M currMutableState),
                                    rr_CurrentWorkflowMutation = currentWorkflowMutation,
                                    rr_NewWorkflowSnapshot = resetWorkflow1\<rparr>;
                                 w3 = issue (CallResetWorkflowExecution resetWFReq) w2
                             in case ResetWorkflowExecution S (length (calls w2)) resetWFReq of
                                  Some err \<Rightarrow> (Return (Some err), c, w3)
                                | None \<Rightarrow>
                                    (let w4 = notifyTasks (sn_TransferTasks resetWorkflow1)
                                                (sn_ReplicationTasks resetWorkflow1)
                                                (sn_TimerTasks resetWorkflow1) w3;
                                         w5 = (case currentWorkflowMutation of
                                                 None \<Rightarrow> w4
                                               | Some m \<Rightarrow>
                                                   notifyTasks (mu_TransferTasks m)
                                                     (mu_ReplicationTasks m)
                                                     (mu_TimerTasks m) w4)
                                     in (Return None, c, w5)))))))"

definition resetWorkflowExecution ::
  "ShardContext \<Rightarrow> 'ms mutableStateOps \<Rightarrow> 'ms workflowExecutionContextImpl \<Rightarrow> 'ms \<Rightarrow> bool
     \<Rightarrow> Task option \<Rightarrow> Task option \<Rightarrow> 'ms \<Rightarrow> int64 \<Rightarrow> Task list \<Rightarrow> Task list
     \<Rightarrow> Task list \<Rightarrow> Task list \<Rightarrow> string \<Rightarrow> int64 \<Rightarrow> world
     \<Rightarrow> error option outcome \<times> 'ms workflowExecutionContextImpl \<times> world" where
  "resetWorkflowExecution S M c currMutableState updateCurr closeTask cleanupTask
       newMutableState newHistorySize newTransferTasks newTimerTasks currReplicationTasks
       newReplicationTasks baseRunID baseRunNextEventID w =
     (let (now, w0) = readClock S w;
          (currTransferTasks, currTimerTasks) =
            setTaskInfo (GetCurrentVersion M currMutableState) now
              (case closeTask of None \<Rightarrow> [] | Some t \<Rightarrow> [t])
              (case cleanupTask of None \<Rightarrow> [] | Some t \<Rightarrow> [t]);
          (newTransferTasks1, newTimerTasks1) =
            setTaskInfo (GetCurrentVersion M newMutableState) now newTransferTasks newTimerTasks
      in if HasBufferedEvents M newMutableState
         then (Return (Some (InternalServiceError
                 ''reset workflow execution shouldn't have buffered events'')), c, w0)
         else
           (case FlushBufferedEvents M currMutableState of
              (Some err, _) \<Rightarrow> (Return (Some err), c, w0)
            | (None, currMutableState1) \<Rightarrow>
                (case FlushBufferedEvents M newMutableState of
                   (Some err, _) \<Rightarrow> (Return (Some err), c, w0)
                 | (None, newMutableState1) \<Rightarrow>
                     (case resetPersistCurrent S M c currMutableState1 updateCurr w0 of
                        (Panic p, c1, w1) \<Rightarrow> (Panic p, c1, w1)
                      | (Return (Some err), c1, w1) \<Rightarrow> (Return (Some err), c1, w1)
                      | (Return None, c1, w1) \<Rightarrow>
                          resetCommit S M c1 currMutableState1 updateCurr newMutableState1
                            newHistorySize currTransferTasks currTimerTasks newTransferTasks1
                            newTimerTasks1 currReplicationTasks newReplicationTasks
                            baseRunID baseRunNextEventID w1))))"

subsection \<open>Whether an update reaches the close of the new run\<close>

text \<open>
  Steps 1 and 2 of the update have succeeded: the context holds a mutable state, it
  closed as a mutation, the context has stats, and every batch was appended.
\<close>

definition reachesNewRun ::
  "ShardContext \<Rightarrow> 'ms mutableStateOps \<Rightarrow> 'ms workflowExecutionContextImpl \<Rightarrow> time
     \<Rightarrow> transactionPolicy \<Rightarrow> world \<Rightarrow> bool" where
  "reachesNewRun S M c now currentWorkflowTransactionPolicy w =
     (case msBuilder c of
        None \<Rightarrow> False
      | Some ms0 \<Rightarrow>
          (case fst (CloseTransactionAsMutation M ms0 now currentWorkflowTransactionPolicy) of
             Inl _ \<Rightarrow> False
           | Inr (currentWorkflow, workflowEventsSeq) \<Rightarrow>
               (case stats c of
                  None \<Rightarrow> False
                | Some st \<Rightarrow>
                    (case fst (persistNonFirstLoop S workflowEventsSeq (HistorySize st) w) of
                       Inl _ \<Rightarrow> False
                     | Inr _ \<Rightarrow> True))))"

subsection \<open>A scripted mutable state and a scripted shard\<close>

text \<open>
  Test doubles in the manner of the package's mocks: a mutable state that answers each
  method with a field, and a shard whose storage call number \<open>n\<close> fails with
  \<open>fails n\<close> when that is an error and succeeds otherwise.
\<close>

record scriptedMutableState =
  sm_info :: WorkflowExecutionInfo
  sm_replicationState :: "ReplicationState option"
  sm_running :: bool
  sm_buffered :: bool
  sm_mutation :: "error + WorkflowMutation \<times> WorkflowEvents list"
  sm_snapshot :: "error + WorkflowSnapshot \<times> WorkflowEvents list"

definition scriptedOps :: "scriptedMutableState mutableStateOps" where
  "scriptedOps =
     \<lparr>newMutableStateBuilderLoad =
        (\<lambda>st. \<lparr>sm_info = wms_ExecutionInfo st,
               sm_replicationState = wms_ReplicationState st,
               sm_running = True,
               sm_buffered = False,
               sm_mutation = Inl (OtherError ''no mutation scripted''),
               sm_snapshot = Inl (OtherError ''no snapshot scripted'')\<rparr>),
      IsWorkflowExecutionRunning = sm_running,
      GetReplicationState = sm_replicationState,
      UpdateReplicationStateVersion =
        (\<lambda>ms v force. ms\<lparr>sm_replicationState :=
            map_option (\<lambda>r. r\<lparr>rs_CurrentVersion := v\<rparr>) (sm_replicationState ms)\<rparr>),
      UpdateReplicationPolicy = (\<lambda>ms p. ms),
      CloseTransactionAsMutation = (\<lambda>ms now pol. (sm_mutation ms, ms)),
      CloseTransactionAsSnapshot = (\<lambda>ms now pol. (sm_snapshot ms, ms)),
      GetExecutionInfo = sm_info,
      GetCurrentVersion = (\<lambda>ms. 0),
      GetLastFirstEventID = (\<lambda>ms. 1),
      GetNextEventID = (\<lambda>ms. ei_NextEventID (sm_info ms)),
      GetPreviousStartedEventID = (\<lambda>ms. 0),
      GetHistoryBuilderEvents = (\<lambda>ms. []),
      GetCurrentBranch = (\<lambda>ms. []),
      HasBufferedEvents = sm_buffered,
      FlushBufferedEvents = (\<lambda>ms. (None, ms\<lparr>sm_buffered := False\<rparr>))\<rparr>"

definition sampleInfo :: "string \<Rightarrow> int64 \<Rightarrow> WorkflowCloseStatus \<Rightarrow> WorkflowExecutionInfo" where
  "sampleInfo runID nextEventID closeStatus =
     \<lparr>ei_DomainID = ''D'', ei_WorkflowID = ''W'', ei_RunID = runID,
      ei_NextEventID = nextEventID, ei_State = WorkflowStateOther 1,
      ei_CloseStatus = closeStatus\<rparr>"

definition sampleState :: WorkflowMutableState where
  "sampleState =
     \<lparr>wms_ExecutionInfo = sampleInfo ''R1'' 7 (WorkflowCloseStatusOther 0),
      wms_ExecutionStats = \<lparr>HistorySize = 50\<rparr>,
      wms_ReplicationState = None\<rparr>"

definition scriptedShard :: "(nat \<Rightarrow> error option) \<Rightarrow> ShardContext" where
  "scriptedShard fails =
     \<lparr>IsGlobalDomainEnabled = False,
      GetDomainByID = (\<lambda>d. Inl EntityNotExistsError),
      timeSourceNow = (\<lambda>n. int n),
      retryAttempts = Suc (Suc 0),
      IsPersistenceTransientError = (\<lambda>e. e = ServiceBusyError),
      BuildHistoryGarbageCleanupInfo = (\<lambda>d wf r. d @ '':'' @ wf @ '':'' @ r),
      GetWorkflowExecution =
        (\<lambda>n req. case fails n of Some e \<Rightarrow> Inl e | None \<Rightarrow> Inr \<lparr>gr_State = sampleState\<rparr>),
      AppendHistoryEvents =
        (\<lambda>n req. case fails n of Some e \<Rightarrow> Inl e | None \<Rightarrow> Inr 100),
      AppendHistoryV2Events =
        (\<lambda>n req d x. case fails n of Some e \<Rightarrow> Inl e | None \<Rightarrow> Inr 100),
      CreateWorkflowExecution =
        (\<lambda>n req. case fails n of Some e \<Rightarrow> Inl e | None \<Rightarrow> Inr ()),
      UpdateWorkflowExecution =
        (\<lambda>n req. case fails n of Some e \<Rightarrow> Inl e | None \<Rightarrow> Inr ()),
      ConflictResolveWorkflowExecution = (\<lambda>n req. fails n),
      ResetWorkflowExecution = (\<lambda>n req. fails n)\<rparr>"

definition emptyWorld :: world where
  "emptyWorld = \<lparr>calls = [], notifications = [], clockReads = 0\<rparr>"

definition sampleMutation :: "int64 \<Rightarrow> WorkflowCloseStatus \<Rightarrow> Task list \<Rightarrow> WorkflowMutation" where
  "sampleMutation nextEventID closeStatus replicationTasks =
     \<lparr>mu_ExecutionInfo = sampleInfo ''R1'' nextEventID closeStatus,
      mu_ExecutionStats = None,
      mu_ReplicationState = None,
      mu_UpsertDeleteInfos = [],
      mu_ClearBufferedEvents = False,
      mu_TransferTasks = [],
      mu_ReplicationTasks = replicationTasks,
      mu_TimerTasks = [],
      mu_Condition = 10\<rparr>"

definition sampleSnapshot :: "Task list \<Rightarrow> WorkflowSnapshot" where
  "sampleSnapshot replicationTasks =
     \<lparr>sn_ExecutionInfo = sampleInfo ''R2'' 3 (WorkflowCloseStatusOther 0),
      sn_ExecutionStats = None,
      sn_ReplicationState = None,
      sn_ChildExecutionInfos = [],
      sn_SignalInfos = [],
      sn_SignalRequestedIDs = [],
      sn_TransferTasks = [],
      sn_ReplicationTasks = replicationTasks,
      sn_TimerTasks = [],
      sn_Condition = 0\<rparr>"

definition sampleBatch :: "string \<Rightarrow> HistoryEvent list \<Rightarrow> WorkflowEvents" where
  "sampleBatch runID events =
     \<lparr>we_DomainID = ''D'', we_WorkflowID = ''W'', we_RunID = runID,
      we_BranchToken = [], we_Events = events\<rparr>"

definition sampleHistoryTask :: "bytes \<Rightarrow> int32 \<Rightarrow> HistoryReplicationTask" where
  "sampleHistoryTask branchToken eventStoreVersion =
     \<lparr>hrt_VisibilityTimestamp = 0, hrt_TaskID = 1, hrt_FirstEventID = 1,
      hrt_NextEventID = 3, hrt_Version = 0, hrt_EventStoreVersion = eventStoreVersion,
      hrt_BranchToken = branchToken, hrt_NewRunEventStoreVersion = 0,
      hrt_NewRunBranchToken = []\<rparr>"

definition sampleOtherTask :: GenericTask where
  "sampleOtherTask =
     \<lparr>gt_Type = 1, gt_VisibilityTimestamp = 0, gt_TaskID = 2, gt_Version = 0\<rparr>"

definition scriptedState ::
  "int64 \<Rightarrow> bool \<Rightarrow> (error + WorkflowMutation \<times> WorkflowEvents list)
     \<Rightarrow> (error + WorkflowSnapshot \<times> WorkflowEvents list) \<Rightarrow> scriptedMutableState" where
  "scriptedState nextEventID buffered mutation snapshot =
     \<lparr>sm_info = sampleInfo ''R1'' nextEventID (WorkflowCloseStatusOther 0),
      sm_replicationState = None,
      sm_running = True,
      sm_buffered = buffered,
      sm_mutation = mutation,
      sm_snapshot = snapshot\<rparr>"

definition sampleContext ::
  "scriptedMutableState option \<Rightarrow> int64 \<Rightarrow> scriptedMutableState workflowExecutionContextImpl" where
  "sampleContext ms cond =
     \<lparr>domainID = ''D'',
      workflowExecution = \<lparr>WorkflowId = ''W'', RunId = ''R1''\<rparr>,
      msBuilder = ms,
      stats = Some \<lparr>HistorySize = 50\<rparr>,
      updateCondition = cond\<rparr>"

subsection \<open>Vocabulary of the properties\<close>

text \<open>
  What the merge does to one task of the current mutation, said directly: a history
  replication task takes the new run's branch token and event store version, any other
  task stays as it is.
\<close>

definition stampNewRun :: "bytes \<Rightarrow> int32 \<Rightarrow> Task \<Rightarrow> Task" where
  "stampNewRun newRunBranchToken newRunEventStoreVersion task =
     (case task of
        HistoryReplication t \<Rightarrow>
          HistoryReplication (t\<lparr>hrt_NewRunBranchToken := newRunBranchToken,
                                hrt_NewRunEventStoreVersion := newRunEventStoreVersion\<rparr>)
      | OtherKind g \<Rightarrow> OtherKind g)"

text \<open>
  The storage request of a continue-as-new update, said directly: the current mutation
  with its history size and with every replication task stamped, and the new snapshot
  with its history size and with no replication tasks.
\<close>

definition mergedRequest ::
  "WorkflowMutation \<Rightarrow> WorkflowSnapshot \<Rightarrow> HistoryReplicationTask \<Rightarrow> int64 \<Rightarrow> int64
     \<Rightarrow> UpdateWorkflowExecutionRequest" where
  "mergedRequest mutation snapshot newRunTask currentSize newSize =
     \<lparr>ur_UpdateWorkflowMutation =
        mutation\<lparr>mu_ExecutionStats := Some \<lparr>HistorySize = currentSize\<rparr>,
                 mu_ReplicationTasks :=
                   map (stampNewRun (hrt_BranchToken newRunTask)
                          (hrt_EventStoreVersion newRunTask))
                     (mu_ReplicationTasks mutation)\<rparr>,
      ur_NewWorkflowSnapshot =
        Some (snapshot\<lparr>sn_ExecutionStats := Some \<lparr>HistorySize = newSize\<rparr>,
                       sn_ReplicationTasks := []\<rparr>)\<rparr>"

definition isHistoryReplication :: "Task \<Rightarrow> bool" where
  "isHistoryReplication task = (case task of HistoryReplication _ \<Rightarrow> True | OtherKind _ \<Rightarrow> False)"

definition isUpdateCall :: "storageCall \<Rightarrow> bool" where
  "isUpdateCall sc = (case sc of CallUpdateWorkflowExecution _ \<Rightarrow> True | _ \<Rightarrow> False)"

definition isAppendCall :: "storageCall \<Rightarrow> bool" where
  "isAppendCall sc =
     (case sc of
        CallAppendHistoryEvents _ \<Rightarrow> True
      | CallAppendHistoryV2Events _ _ _ \<Rightarrow> True
      | _ \<Rightarrow> False)"

text \<open>
  The second world comes from the first by history appends alone: the storage calls
  added are all appends, and nothing else changed.
\<close>

definition appendsOnly :: "world \<Rightarrow> world \<Rightarrow> bool" where
  "appendsOnly w w' =
     (take (length (calls w)) (calls w') = calls w
      \<and> list_all isAppendCall (drop (length (calls w)) (calls w'))
      \<and> notifications w' = notifications w
      \<and> clockReads w' = clockReads w)"

definition bufferedState :: scriptedMutableState where
  "bufferedState =
     scriptedState 7 True (Inl (OtherError ''unused''))
       (Inr (sampleSnapshot [], [sampleBatch ''R2'' [\<lparr>EventId = 1, Version = 0\<rparr>]]))"

definition eventfulState :: scriptedMutableState where
  "eventfulState =
     scriptedState 7 False (Inl (OtherError ''unused''))
       (Inr (sampleSnapshot [], [sampleBatch ''R1'' [\<lparr>EventId = 7, Version = 0\<rparr>]]))"

definition quietState :: scriptedMutableState where
  "quietState =
     scriptedState 7 False
       (Inr (sampleMutation 12 (WorkflowCloseStatusOther 0) [], []))
       (Inr (sampleSnapshot [], []))"

definition failingCloseState :: scriptedMutableState where
  "failingCloseState =
     scriptedState 7 False (Inl (OtherError ''close failed''))
       (Inl (OtherError ''close failed''))"

definition progressState :: scriptedMutableState where
  "progressState =
     scriptedState 10 False
       (Inr (sampleMutation 12 (WorkflowCloseStatusOther 0) [],
             [sampleBatch ''R1'' [\<lparr>EventId = 10, Version = 0\<rparr>, \<lparr>EventId = 11, Version = 0\<rparr>]]))
       (Inl (OtherError ''unused''))"

definition replicatedState :: scriptedMutableState where
  "replicatedState =
     quietState\<lparr>sm_replicationState :=
       Some \<lparr>rs_CurrentVersion = 1, rs_LastWriteVersion = 1\<rparr>\<rparr>"

definition continuedState :: scriptedMutableState where
  "continuedState =
     scriptedState 12 False
       (Inr (sampleMutation 12 WorkflowCloseStatusContinuedAsNew
               [HistoryReplication (sampleHistoryTask [] 0)], []))
       (Inl (OtherError ''unused''))"

definition globalShard :: ShardContext where
  "globalShard = (scriptedShard (\<lambda>n. None))\<lparr>IsGlobalDomainEnabled := True\<rparr>"

definition domainShard :: ShardContext where
  "domainShard =
     globalShard\<lparr>GetDomainByID :=
       (\<lambda>d. Inr \<lparr>de_Name = ''domain'', de_FailoverVersion = 9, de_ReplicationPolicy = 1\<rparr>)\<rparr>"

definition silentState :: scriptedMutableState where
  "silentState =
     scriptedState 7 False
       (Inr (sampleMutation 7 (WorkflowCloseStatusOther 0) [], [sampleBatch ''R1'' []]))
       (Inl (OtherError ''unused''))"

definition newRunState :: scriptedMutableState where
  "newRunState =
     scriptedState 3 False (Inl (OtherError ''unused''))
       (Inr (sampleSnapshot [HistoryReplication (sampleHistoryTask [1, 2] 2)],
             [sampleBatch ''R2'' [\<lparr>EventId = 1, Version = 0\<rparr>]]))"

subsection \<open>The contract of closing a transaction as a mutation\<close>


section \<open>Verified properties\<close>

lemmas sample_defs = scriptedShard_def scriptedOps_def sampleContext_def scriptedState_def
  sampleMutation_def sampleSnapshot_def sampleBatch_def emptyWorld_def sampleInfo_def
  sampleState_def sampleHistoryTask_def sampleOtherTask_def bufferedState_def
  eventfulState_def quietState_def failingCloseState_def progressState_def
  replicatedState_def globalShard_def continuedState_def
  domainShard_def silentState_def newRunState_def

lemmas run_defs = updateWorkflowExecutionWithNew_def updateWorkflowExecutionWithNewBody_def
  getHistorySize_def setHistorySize_def commitUpdate_def mergeContinueAsNewReplicationTasks_def
  updateWorkflowExecutionWithRetry_def persistNonFirstWorkflowEvents_def
  persistFirstWorkflowEvents_def appendHistoryEventsWithRetry_def
  appendHistoryV2EventsWithRetry_def closeNewWorkflow_def issue_def notify_def
  notifyTasks_def clear_def reachesNewRun_def

lemmas load_defs = loadWorkflowExecution_def loadWorkflowExecutionInternal_def updateVersion_def
  getWorkflowExecutionWithRetry_def issue_def

subsection \<open>The retry harness issues one call per attempt\<close>

lemma Retry_issue:
  "Retry k (\<lambda>w. (f (length (calls w)), issue sc w)) P w = (r, w') \<Longrightarrow>
     \<exists>n. 1 \<le> n \<and> n \<le> Suc k \<and> w' = w\<lparr>calls := calls w @ replicate n sc\<rparr>"
proof (induction k arbitrary: w)
  case 0
  then have "w' = w\<lparr>calls := calls w @ replicate 1 sc\<rparr>" by (simp add: issue_def)
  then show ?case by (intro exI[of _ 1]) simp
next
  case (Suc k)
  show ?case
  proof (cases "\<exists>e. f (length (calls w)) = Inl e \<and> P e")
    case True
    then obtain e where e: "f (length (calls w)) = Inl e" "P e" by blast
    with Suc.prems
    have "Retry k (\<lambda>w. (f (length (calls w)), issue sc w)) P (issue sc w) = (r, w')"
      by simp
    from Suc.IH[OF this] obtain n where n: "1 \<le> n" "n \<le> Suc k"
      "w' = (issue sc w)\<lparr>calls := calls (issue sc w) @ replicate n sc\<rparr>" by blast
    have "w' = w\<lparr>calls := calls w @ replicate (Suc n) sc\<rparr>"
      using n(3) by (simp add: issue_def)
    with n show ?thesis by (intro exI[of _ "Suc n"]) simp
  next
    case False
    with Suc.prems have "w' = w\<lparr>calls := calls w @ replicate 1 sc\<rparr>"
      by (auto simp: issue_def split: sum.splits if_splits)
    then show ?thesis by (intro exI[of _ 1]) simp
  qed
qed

subsection \<open>Storage calls of the history appender\<close>

lemma appendsOnly_refl: "appendsOnly w w"
  by (simp add: appendsOnly_def)

lemma appendsOnly_trans: "appendsOnly w w1 \<Longrightarrow> appendsOnly w1 w2 \<Longrightarrow> appendsOnly w w2"
proof -
  assume a: "appendsOnly w w1" and b: "appendsOnly w1 w2"
  from a obtain e1 where e1: "calls w1 = calls w @ e1" "list_all isAppendCall e1"
    unfolding appendsOnly_def by (metis append_take_drop_id)
  from b obtain e2 where e2: "calls w2 = calls w1 @ e2" "list_all isAppendCall e2"
    unfolding appendsOnly_def by (metis append_take_drop_id)
  show ?thesis using a b e1 e2 by (simp add: appendsOnly_def)
qed

lemma appendsOnly_replicate:
  "isAppendCall sc \<Longrightarrow> appendsOnly w (w\<lparr>calls := calls w @ replicate n sc\<rparr>)"
  by (simp add: appendsOnly_def list_all_iff)

lemma appendsOnly_no_update:
  "appendsOnly w w' \<Longrightarrow> \<not> list_ex isUpdateCall (drop (length (calls w)) (calls w'))"
  by (auto simp: appendsOnly_def list_all_iff list_ex_iff isAppendCall_def isUpdateCall_def
        split: storageCall.splits)

lemma appendHistoryEventsWithRetry_appendsOnly:
  "appendHistoryEventsWithRetry S request w = (r, w') \<Longrightarrow> appendsOnly w w'"
  unfolding appendHistoryEventsWithRetry_def
  by (auto split: prod.splits sum.splits dest!: Retry_issue
        intro!: appendsOnly_replicate simp: isAppendCall_def)

lemma appendHistoryV2EventsWithRetry_appendsOnly:
  "appendHistoryV2EventsWithRetry S d x request w = (r, w') \<Longrightarrow> appendsOnly w w'"
  unfolding appendHistoryV2EventsWithRetry_def
  by (auto split: prod.splits sum.splits dest!: Retry_issue
        intro!: appendsOnly_replicate simp: isAppendCall_def)

lemma persistNonFirstWorkflowEvents_appendsOnly:
  "persistNonFirstWorkflowEvents S b w = (r, w') \<Longrightarrow> appendsOnly w w'"
  unfolding persistNonFirstWorkflowEvents_def
  by (auto split: list.splits if_splits simp: Let_def appendsOnly_refl
        dest: appendHistoryEventsWithRetry_appendsOnly appendHistoryV2EventsWithRetry_appendsOnly)

lemma persistFirstWorkflowEvents_appendsOnly:
  "persistFirstWorkflowEvents S b w = (r, w') \<Longrightarrow> appendsOnly w w'"
  unfolding persistFirstWorkflowEvents_def
  by (auto split: list.splits if_splits simp: Let_def appendsOnly_refl
        dest: appendHistoryEventsWithRetry_appendsOnly appendHistoryV2EventsWithRetry_appendsOnly)

lemma persistNonFirstLoop_appendsOnly:
  "persistNonFirstLoop S seq n w = (r, w') \<Longrightarrow> appendsOnly w w'"
proof (induction seq arbitrary: n w)
  case Nil
  then show ?case by (simp add: appendsOnly_refl)
next
  case (Cons b seq)
  obtain sz e w1 where p: "persistNonFirstWorkflowEvents S b w = ((sz, e), w1)"
    by (metis surj_pair)
  then have a: "appendsOnly w w1" by (rule persistNonFirstWorkflowEvents_appendsOnly)
  show ?case
  proof (cases e)
    case None
    with Cons.prems p have "persistNonFirstLoop S seq (n + sz) w1 = (r, w')" by simp
    then have "appendsOnly w1 w'" by (rule Cons.IH)
    with a show ?thesis by (rule appendsOnly_trans)
  next
    case (Some err)
    with Cons.prems p have "w' = w1" by simp
    with a show ?thesis by simp
  qed
qed

lemma closeNewWorkflow_appendsOnly:
  "closeNewWorkflow S M nc nms now np w = (r, nc', w') \<Longrightarrow> appendsOnly w w'"
  unfolding closeNewWorkflow_def
  by (auto split: sum.splits prod.splits outcome.splits list.splits option.splits
        simp: appendsOnly_refl dest: persistFirstWorkflowEvents_appendsOnly)

subsection \<open>Facts about the merge\<close>

lemma mergeLoop_eq:
  "mergeLoop bt v ts u = (map (stampNewRun bt v) ts, u \<or> list_ex isHistoryReplication ts)"
  by (induction ts arbitrary: u)
     (auto simp: stampNewRun_def isHistoryReplication_def split: Task.splits)

lemma stampNewRun_carries:
  "HistoryReplication h \<in> set (map (stampNewRun bt v) ts) \<Longrightarrow>
     hrt_NewRunBranchToken h = bt \<and> hrt_NewRunEventStoreVersion h = v"
  by (auto simp: stampNewRun_def split: Task.splits)

lemma merge_single_history_task:
  assumes "ei_CloseStatus (mu_ExecutionInfo m) = WorkflowCloseStatusContinuedAsNew"
    and "mu_ReplicationTasks m \<noteq> []"
    and "sn_ReplicationTasks snapshot = [HistoryReplication t]"
  shows "mergeContinueAsNewReplicationTasks m (Some snapshot) =
     (Return (if list_ex isHistoryReplication (mu_ReplicationTasks m) then None
              else Some (InternalServiceError
                ''unable to find replication task from current workflow for continue as new replication'')),
      m\<lparr>mu_ReplicationTasks :=
          map (stampNewRun (hrt_BranchToken t) (hrt_EventStoreVersion t)) (mu_ReplicationTasks m)\<rparr>,
      Some (snapshot\<lparr>sn_ReplicationTasks := []\<rparr>))"
  using assms by (simp add: mergeContinueAsNewReplicationTasks_def mergeLoop_eq)

lemma merge_noop:
  assumes "ei_CloseStatus (mu_ExecutionInfo m) \<noteq> WorkflowCloseStatusContinuedAsNew
           \<or> mu_ReplicationTasks m = []"
  shows "mergeContinueAsNewReplicationTasks m s = (Return None, m, s)"
  using assms by (auto simp: mergeContinueAsNewReplicationTasks_def)

lemma merge_panic_kind:
  "mergeContinueAsNewReplicationTasks m s = (Panic p, m1, s1) \<Longrightarrow> p = InterfaceConversion"
  by (auto simp: mergeContinueAsNewReplicationTasks_def Let_def
        split: option.splits Task.splits prod.splits if_splits)

lemma merge_wrong_count:
  assumes "ei_CloseStatus (mu_ExecutionInfo m) = WorkflowCloseStatusContinuedAsNew"
    and "mu_ReplicationTasks m \<noteq> []"
    and "s = None \<or> (\<exists>snapshot. s = Some snapshot \<and> length (sn_ReplicationTasks snapshot) \<noteq> 1)"
  shows "mergeContinueAsNewReplicationTasks m s =
     (Return (Some (InternalServiceError
        ''unable to find replication task from new workflow for continue as new replication'')),
      m, s)"
  using assms by (auto simp: mergeContinueAsNewReplicationTasks_def)


subsection \<open>Facts about the update path\<close>

lemma update_fst:
  "fst (updateWorkflowExecutionWithNew S M c now nc nms pol np w)
     = fst (updateWorkflowExecutionWithNewBody S M c now nc nms pol np w)"
  by (simp add: updateWorkflowExecutionWithNew_def split: prod.splits outcome.splits option.splits)

lemma update_world:
  "snd (snd (snd (updateWorkflowExecutionWithNew S M c now nc nms pol np w)))
     = fst (snd (snd (snd (updateWorkflowExecutionWithNewBody S M c now nc nms pol np w))))"
  by (simp add: updateWorkflowExecutionWithNew_def split: prod.splits outcome.splits option.splits)

lemma update_error_clears_current:
  "updateWorkflowExecutionWithNew S M c now nc nms pol np w = (Return (Some e), c', nc', w')
     \<Longrightarrow> msBuilder c' = None \<and> stats c' = None"
  by (auto simp: updateWorkflowExecutionWithNew_def clear_def
        split: prod.splits outcome.splits option.splits)

lemma body_paired_flag:
  "updateWorkflowExecutionWithNewBody S M c now (Some nc) (Some nms) pol (Some np) w
      = (r, c1, nc1, w1, d) \<Longrightarrow>
   d = reachesNewRun S M c now pol w \<and> (\<exists>x. nc1 = Some x) \<and> (\<not> d \<longrightarrow> nc1 = Some nc)"
  unfolding updateWorkflowExecutionWithNewBody_def reachesNewRun_def getHistorySize_def
    setHistorySize_def Let_def
  by (auto split: option.splits prod.splits sum.splits outcome.splits)

lemma commitUpdate_panic:
  "commitUpdate S M c ms m s w = (Panic p, c', w') \<Longrightarrow> p = InterfaceConversion"
  unfolding commitUpdate_def Let_def
  by (auto split: prod.splits outcome.splits option.splits sum.splits dest: merge_panic_kind)

lemma closeNewWorkflow_oob_D:
  "closeNewWorkflow S M nc nms now np w = (Panic IndexOutOfRange, nc', w') \<Longrightarrow>
     stats nc \<noteq> None \<and> (\<exists>snap. fst (CloseTransactionAsSnapshot M nms now np) = Inr (snap, []))"
  unfolding closeNewWorkflow_def getHistorySize_def setHistorySize_def
  by (auto split: sum.splits prod.splits option.splits list.splits outcome.splits)

lemma closeNewWorkflow_oob_I:
  "stats nc = Some y \<Longrightarrow> fst (CloseTransactionAsSnapshot M nms now np) = Inr (snap, []) \<Longrightarrow>
     closeNewWorkflow S M nc nms now np w = (Panic IndexOutOfRange, nc, w)"
  unfolding closeNewWorkflow_def getHistorySize_def setHistorySize_def
  by simp

lemma closeNewWorkflow_result:
  "closeNewWorkflow S M nc nms now np w = (Return (Inr nw), nc1, w2) \<Longrightarrow>
     \<exists>snap seq2. fst (CloseTransactionAsSnapshot M nms now np) = Inr (snap, seq2)
        \<and> sn_ReplicationTasks nw = sn_ReplicationTasks snap"
  unfolding closeNewWorkflow_def getHistorySize_def setHistorySize_def
  by (auto split: sum.splits prod.splits option.splits list.splits outcome.splits)


lemma calls_notify [simp]: "calls (notify n w) = calls w"
  by (simp add: notify_def)

lemma calls_notifyTasks [simp]: "calls (notifyTasks a b d w) = calls w"
  by (simp add: notifyTasks_def)


lemma commitUpdate_merge_fails:
  assumes "ei_CloseStatus (mu_ExecutionInfo m) = WorkflowCloseStatusContinuedAsNew"
    and "mu_ReplicationTasks m \<noteq> []"
    and "s = None \<or> (\<exists>snapshot. s = Some snapshot \<and> length (sn_ReplicationTasks snapshot) \<noteq> 1)"
  shows "commitUpdate S M c ms m s w =
     (Return (Some (InternalServiceError
        ''unable to find replication task from new workflow for continue as new replication'')),
      c, w)"
  by (simp add: commitUpdate_def merge_wrong_count[OF assms])

lemma update_unpaired_merge_fails:
  assumes "nc = None \<or> nms = None \<or> np = None"
    and "msBuilder c = Some ms0"
    and "fst (CloseTransactionAsMutation M ms0 now pol) = Inr (cw, seq)"
    and "ei_CloseStatus (mu_ExecutionInfo cw) = WorkflowCloseStatusContinuedAsNew"
    and "mu_ReplicationTasks cw \<noteq> []"
  shows "fst (updateWorkflowExecutionWithNew S M c now nc nms pol np w) \<noteq> Return None
     \<and> appendsOnly w (snd (snd (snd (updateWorkflowExecutionWithNew S M c now nc nms pol np w))))"
proof -
  obtain ms where cl: "CloseTransactionAsMutation M ms0 now pol = (Inr (cw, seq), ms)"
    using assms(3) by (metis fst_conv surj_pair)
  show ?thesis
    unfolding update_fst update_world
    unfolding updateWorkflowExecutionWithNewBody_def Let_def getHistorySize_def setHistorySize_def
    using assms(1,2,4,5) cl
    by (auto split: option.splits prod.splits sum.splits
          simp: commitUpdate_merge_fails appendsOnly_refl dest: persistNonFirstLoop_appendsOnly)
qed

lemma update_paired_merge_fails:
  assumes "msBuilder c = Some ms0"
    and "fst (CloseTransactionAsMutation M ms0 now pol) = Inr (cw, seq)"
    and "ei_CloseStatus (mu_ExecutionInfo cw) = WorkflowCloseStatusContinuedAsNew"
    and "mu_ReplicationTasks cw \<noteq> []"
    and "fst (CloseTransactionAsSnapshot M nms now np) = Inr (snap, seq2)"
    and "length (sn_ReplicationTasks snap) \<noteq> 1"
  shows "fst (updateWorkflowExecutionWithNew S M c now (Some nc) (Some nms) pol (Some np) w)
           \<noteq> Return None
     \<and> appendsOnly w (snd (snd (snd
          (updateWorkflowExecutionWithNew S M c now (Some nc) (Some nms) pol (Some np) w))))"
proof -
  obtain ms where cl: "CloseTransactionAsMutation M ms0 now pol = (Inr (cw, seq), ms)"
    using assms(2) by (metis fst_conv surj_pair)
  have cu: "\<And>c2 nw nc1 w1 w2. closeNewWorkflow S M nc nms now np w1 = (Return (Inr nw), nc1, w2)
     \<Longrightarrow> commitUpdate S M c2 ms (cw\<lparr>mu_ExecutionStats := x\<rparr>) (Some nw) w2 =
     (Return (Some (InternalServiceError
        ''unable to find replication task from new workflow for continue as new replication'')),
      c2, w2)" for x
    using assms(3,4,5,6) by (auto dest!: closeNewWorkflow_result intro!: commitUpdate_merge_fails)
  show ?thesis
    unfolding update_fst update_world
    unfolding updateWorkflowExecutionWithNewBody_def Let_def getHistorySize_def setHistorySize_def
    using assms(1) cl
    by (auto split: option.splits prod.splits sum.splits outcome.splits
          simp: cu appendsOnly_refl
          dest: persistNonFirstLoop_appendsOnly closeNewWorkflow_appendsOnly
          intro: appendsOnly_trans)
qed

subsection \<open>Facts about load, reset, conflict resolve and create\<close>

lemma load_cached:
  assumes "msBuilder c = Some ms"
  shows "\<exists>r c'. loadWorkflowExecution S M c w = (Return r, c', w)
        \<and> msBuilder c' \<noteq> None \<and> stats c' = stats c \<and> updateCondition c' = updateCondition c
        \<and> (r = (msBuilder c', None)
            \<or> (\<exists>err. GetDomainByID S (domainID c) = Inl err \<and> r = (None, Some err) \<and> c' = c))
        \<and> (\<not> IsGlobalDomainEnabled S \<or> GetReplicationState M ms = None
              \<or> \<not> IsWorkflowExecutionRunning M ms \<longrightarrow> r = (Some ms, None) \<and> c' = c)"
  using assms
  unfolding loadWorkflowExecution_def loadWorkflowExecutionInternal_def updateVersion_def
  by (auto split: sum.splits)

lemma load_fetches:
  assumes "msBuilder c = None"
    and "loadWorkflowExecution S M c w = (Return (Some ms1, None), c1, w1)"
  shows "(\<exists>n. 1 \<le> n \<and> n \<le> Suc (retryAttempts S)
            \<and> calls w1 = calls w @ replicate n (CallGetWorkflowExecution
                 \<lparr>gr_DomainID = domainID c, gr_Execution = workflowExecution c\<rparr>))
         \<and> msBuilder c1 = Some ms1"
proof -
  let ?req = "\<lparr>gr_DomainID = domainID c, gr_Execution = workflowExecution c\<rparr>"
  obtain a w0 where g: "getWorkflowExecutionWithRetry S ?req w = (a, w0)"
    by (metis surj_pair)
  from g have "\<exists>n. 1 \<le> n \<and> n \<le> Suc (retryAttempts S)
       \<and> w0 = w\<lparr>calls := calls w @ replicate n (CallGetWorkflowExecution ?req)\<rparr>"
    unfolding getWorkflowExecutionWithRetry_def by (rule Retry_issue)
  moreover from assms g have "w1 = w0 \<and> msBuilder c1 = Some ms1"
    unfolding loadWorkflowExecution_def loadWorkflowExecutionInternal_def updateVersion_def
    by (auto split: sum.splits option.splits if_splits)
  ultimately show ?thesis by auto
qed








subsection \<open>Further facts about load and the update path\<close>

lemma load_cached_cases:
  assumes "msBuilder c = Some ms"
  shows "loadWorkflowExecution S M c w =
     (if IsGlobalDomainEnabled S \<and> GetReplicationState M ms \<noteq> None
          \<and> IsWorkflowExecutionRunning M ms
      then (case GetDomainByID S (domainID c) of
              Inl err \<Rightarrow> (Return (None, Some err), c, w)
            | Inr domainEntry \<Rightarrow>
                (Return (Some (UpdateReplicationPolicy M
                                 (UpdateReplicationStateVersion M ms
                                    (de_FailoverVersion domainEntry) False)
                                 (de_ReplicationPolicy domainEntry)), None),
                 c\<lparr>msBuilder := Some (UpdateReplicationPolicy M
                                 (UpdateReplicationStateVersion M ms
                                    (de_FailoverVersion domainEntry) False)
                                 (de_ReplicationPolicy domainEntry))\<rparr>, w))
      else (Return (Some ms, None), c, w))"
  using assms
  unfolding loadWorkflowExecution_def loadWorkflowExecutionInternal_def updateVersion_def
  by (auto split: sum.splits)

lemma Retry_first_success:
  "operation w = (Inr r, w') \<Longrightarrow> Retry k operation P w = (Inr r, w')"
  by (cases k) simp_all

lemma persistNonFirstLoop_empty:
  "\<forall>b \<in> set seq. we_Events b = [] \<Longrightarrow> persistNonFirstLoop S seq n w = (Inr n, w)"
  by (induction seq arbitrary: n w) (simp_all add: persistNonFirstWorkflowEvents_def)

lemma update_without_events_commits:
  assumes "msBuilder c = Some ms0"
    and "CloseTransactionAsMutation M ms0 now pol = (Inr (m, seq), ms)"
    and "\<forall>b \<in> set seq. we_Events b = []"
    and "stats c = Some st"
    and "ei_CloseStatus (mu_ExecutionInfo m) \<noteq> WorkflowCloseStatusContinuedAsNew
         \<or> mu_ReplicationTasks m = []"
    and "UpdateWorkflowExecution S (length (calls w))
           \<lparr>ur_UpdateWorkflowMutation = m\<lparr>mu_ExecutionStats := Some \<lparr>HistorySize = HistorySize st\<rparr>\<rparr>,
            ur_NewWorkflowSnapshot = None\<rparr> = Inr u"
  shows "fst (updateWorkflowExecutionWithNew S M c now None None pol None w) = Return None
     \<and> calls (snd (snd (snd (updateWorkflowExecutionWithNew S M c now None None pol None w))))
         = calls w @ [CallUpdateWorkflowExecution
             \<lparr>ur_UpdateWorkflowMutation = m\<lparr>mu_ExecutionStats := Some \<lparr>HistorySize = HistorySize st\<rparr>\<rparr>,
              ur_NewWorkflowSnapshot = None\<rparr>]
     \<and> stats (fst (snd (updateWorkflowExecutionWithNew S M c now None None pol None w))) = Some st
     \<and> msBuilder (fst (snd (updateWorkflowExecutionWithNew S M c now None None pol None w))) = Some ms"
proof -
  let ?m = "m\<lparr>mu_ExecutionStats := Some \<lparr>HistorySize = HistorySize st\<rparr>\<rparr>"
  let ?req = "\<lparr>ur_UpdateWorkflowMutation = ?m, ur_NewWorkflowSnapshot = None\<rparr>"
  have loop: "persistNonFirstLoop S seq (HistorySize st) w = (Inr (HistorySize st), w)"
    using assms(3) by (rule persistNonFirstLoop_empty)
  have mg: "mergeContinueAsNewReplicationTasks ?m None = (Return None, ?m, None)"
    using assms(5) by (intro merge_noop) simp
  have up: "updateWorkflowExecutionWithRetry S ?req w
              = (Inr u, issue (CallUpdateWorkflowExecution ?req) w)"
    unfolding updateWorkflowExecutionWithRetry_def
    using assms(6) by (simp add: Retry_first_success)
  show ?thesis
    unfolding updateWorkflowExecutionWithNew_def updateWorkflowExecutionWithNewBody_def
      getHistorySize_def setHistorySize_def commitUpdate_def Let_def
    using assms(1,2,4) loop mg up
    by (simp add: issue_def)
qed


lemma updateWorkflowExecutionWithRetry_calls:
  "updateWorkflowExecutionWithRetry S request w = (a, w1) \<Longrightarrow>
     \<exists>n. 1 \<le> n \<and> w1 = w\<lparr>calls := calls w @ replicate n (CallUpdateWorkflowExecution request)\<rparr>"
  unfolding updateWorkflowExecutionWithRetry_def
  by (auto split: prod.splits sum.splits error.splits dest!: Retry_issue)

lemma commitUpdate_calls:
  assumes "commitUpdate S M c ms m s w = (r, c', w')"
  shows "(r \<noteq> Return None \<and> calls w' = calls w)
     \<or> (\<exists>m1 s1 n. mergeContinueAsNewReplicationTasks m s = (Return None, m1, s1) \<and> 1 \<le> n
           \<and> calls w' = calls w @ replicate n (CallUpdateWorkflowExecution
                \<lparr>ur_UpdateWorkflowMutation = m1, ur_NewWorkflowSnapshot = s1\<rparr>))"
proof -
  obtain r0 m1 s1 where mg: "mergeContinueAsNewReplicationTasks m s = (r0, m1, s1)"
    by (metis surj_pair)
  show ?thesis
  proof (cases "r0 = Return None")
    case False
    with assms mg have "w' = w \<and> r \<noteq> Return None"
      by (auto simp: commitUpdate_def split: outcome.splits option.splits)
    then show ?thesis by simp
  next
    case True
    let ?req = "\<lparr>ur_UpdateWorkflowMutation = m1, ur_NewWorkflowSnapshot = s1\<rparr>"
    obtain a w1 where up: "updateWorkflowExecutionWithRetry S ?req w = (a, w1)"
      by (metis surj_pair)
    from updateWorkflowExecutionWithRetry_calls[OF up] obtain n where
      n: "1 \<le> n" "w1 = w\<lparr>calls := calls w @ replicate n (CallUpdateWorkflowExecution ?req)\<rparr>"
      by blast
    from assms mg True up have "calls w' = calls w1"
      by (auto simp: commitUpdate_def Let_def split: sum.splits option.splits)
    with n mg True show ?thesis by auto
  qed
qed

lemma closeNewWorkflow_snapshot:
  "closeNewWorkflow S M nc nms now np w = (Return (Inr nw), nc1, w2) \<Longrightarrow>
     appendsOnly w w2
     \<and> (\<exists>snapshot newSeq k. fst (CloseTransactionAsSnapshot M nms now np) = Inr (snapshot, newSeq)
        \<and> nw = snapshot\<lparr>sn_ExecutionStats := Some \<lparr>HistorySize = k\<rparr>\<rparr>)"
  unfolding closeNewWorkflow_def getHistorySize_def setHistorySize_def
  by (auto split: sum.splits prod.splits option.splits list.splits outcome.splits
        dest: persistFirstWorkflowEvents_appendsOnly)

lemma update_paired_commit:
  assumes "msBuilder c = Some ms0"
    and "CloseTransactionAsMutation M ms0 now pol = (Inr (m, seq), ms)"
    and "fst (CloseTransactionAsSnapshot M nms now np) = Inr (snapshot, newSeq)"
    and "updateWorkflowExecutionWithNew S M c now (Some nc) (Some nms) pol (Some np) w
           = (r, c', nc', w')"
  shows "(r \<noteq> Return None \<and> appendsOnly w w')
     \<or> (\<exists>c2 c3 k j w2. appendsOnly w w2
           \<and> commitUpdate S M c2 ms (m\<lparr>mu_ExecutionStats := Some \<lparr>HistorySize = k\<rparr>\<rparr>)
                (Some (snapshot\<lparr>sn_ExecutionStats := Some \<lparr>HistorySize = j\<rparr>\<rparr>)) w2 = (r, c3, w'))"
proof -
  obtain r1 c1 nc1 w1 d where b:
    "updateWorkflowExecutionWithNewBody S M c now (Some nc) (Some nms) pol (Some np) w
       = (r1, c1, nc1, w1, d)"
    by (metis surj_pair)
  with assms(4) have rw: "r1 = r" "w1 = w'"
    by (auto simp: updateWorkflowExecutionWithNew_def split: outcome.splits option.splits)
  show ?thesis
  proof (cases "stats c")
    case None
    with b assms(1,2) have "w1 = w \<and> r1 \<noteq> Return None"
      by (auto simp: updateWorkflowExecutionWithNewBody_def getHistorySize_def)
    with rw show ?thesis by (simp add: appendsOnly_refl)
  next
    case (Some st)
    obtain x wa where loop: "persistNonFirstLoop S seq (HistorySize st) w = (x, wa)"
      by (metis surj_pair)
    then have a1: "appendsOnly w wa" by (rule persistNonFirstLoop_appendsOnly)
    show ?thesis
    proof (cases x)
      case (Inl e)
      with b assms(1,2) Some loop have "w1 = wa \<and> r1 \<noteq> Return None"
        by (auto simp: updateWorkflowExecutionWithNewBody_def getHistorySize_def)
      with rw a1 show ?thesis by simp
    next
      case (Inr k)
      obtain y nc2 wb where cn: "closeNewWorkflow S M nc nms now np wa = (y, nc2, wb)"
        by (metis surj_pair)
      then have "appendsOnly wa wb" by (rule closeNewWorkflow_appendsOnly)
      with a1 have a2: "appendsOnly w wb" by (rule appendsOnly_trans)
      let ?c2 = "c\<lparr>msBuilder := Some ms, stats := Some (st\<lparr>HistorySize := k\<rparr>)\<rparr>"
      let ?m = "m\<lparr>mu_ExecutionStats := Some \<lparr>HistorySize = k\<rparr>\<rparr>"
      show ?thesis
      proof (cases "\<exists>nw. y = Return (Inr nw)")
        case False
        with b assms(1,2) Some loop Inr cn have "w1 = wb \<and> r1 \<noteq> Return None"
          by (auto simp: updateWorkflowExecutionWithNewBody_def getHistorySize_def
                setHistorySize_def Let_def split: outcome.splits sum.splits)
        with rw a2 show ?thesis by simp
      next
        case True
        then obtain nw where y: "y = Return (Inr nw)" by blast
        from closeNewWorkflow_snapshot[OF cn[unfolded y]] assms(3)
        obtain j where nw: "nw = snapshot\<lparr>sn_ExecutionStats := Some \<lparr>HistorySize = j\<rparr>\<rparr>"
          by auto
        from b assms(1,2) Some loop Inr cn y
        have "\<exists>c3. commitUpdate S M ?c2 ms ?m (Some nw) wb = (r1, c3, w1)"
          by (auto simp: updateWorkflowExecutionWithNewBody_def getHistorySize_def
                setHistorySize_def Let_def split: prod.splits)
        with rw nw a2 show ?thesis by blast
      qed
    qed
  qed
qed

lemma appendsOnly_ext:
  "appendsOnly w w' \<Longrightarrow> \<exists>ext. calls w' = calls w @ ext \<and> list_all isAppendCall ext"
  unfolding appendsOnly_def by (metis append_take_drop_id)

lemma not_append_update: "isAppendCall (CallUpdateWorkflowExecution request) = False"
  by (simp add: isAppendCall_def)

lemma update_paired_can_calls:
  assumes "msBuilder c = Some ms0"
    and "fst (CloseTransactionAsMutation M ms0 now pol) = Inr (m, seq)"
    and "ei_CloseStatus (mu_ExecutionInfo m) = WorkflowCloseStatusContinuedAsNew"
    and "mu_ReplicationTasks m \<noteq> []"
    and "fst (CloseTransactionAsSnapshot M nms now np) = Inr (snapshot, newSeq)"
    and "sn_ReplicationTasks snapshot = [HistoryReplication t]"
    and "updateWorkflowExecutionWithNew S M c now (Some nc) (Some nms) pol (Some np) w
           = (r, c', nc', w')"
  shows "(r \<noteq> Return None \<and> (\<exists>ext. calls w' = calls w @ ext \<and> list_all isAppendCall ext))
     \<or> (\<exists>k j n ext. 1 \<le> n \<and> list_all isAppendCall ext
           \<and> calls w' = calls w @ ext @ replicate n (CallUpdateWorkflowExecution
               \<lparr>ur_UpdateWorkflowMutation =
                  m\<lparr>mu_ExecutionStats := Some \<lparr>HistorySize = k\<rparr>,
                    mu_ReplicationTasks :=
                      map (stampNewRun (hrt_BranchToken t) (hrt_EventStoreVersion t))
                        (mu_ReplicationTasks m)\<rparr>,
                ur_NewWorkflowSnapshot =
                  Some (snapshot\<lparr>sn_ExecutionStats := Some \<lparr>HistorySize = j\<rparr>,
                                 sn_ReplicationTasks := []\<rparr>)\<rparr>))"
proof -
  obtain ms where cl: "CloseTransactionAsMutation M ms0 now pol = (Inr (m, seq), ms)"
    using assms(2) by (metis fst_conv surj_pair)
  from update_paired_commit[OF assms(1) cl assms(5) assms(7)]
  consider (early) "r \<noteq> Return None" "appendsOnly w w'"
    | (commit) c2 c3 k j w2 where "appendsOnly w w2"
        "commitUpdate S M c2 ms (m\<lparr>mu_ExecutionStats := Some \<lparr>HistorySize = k\<rparr>\<rparr>)
           (Some (snapshot\<lparr>sn_ExecutionStats := Some \<lparr>HistorySize = j\<rparr>\<rparr>)) w2 = (r, c3, w')"
    by blast
  then show ?thesis
  proof cases
    case early
    then show ?thesis using appendsOnly_ext by blast
  next
    case commit
    let ?m = "m\<lparr>mu_ExecutionStats := Some \<lparr>HistorySize = k\<rparr>\<rparr>"
    let ?s = "snapshot\<lparr>sn_ExecutionStats := Some \<lparr>HistorySize = j\<rparr>\<rparr>"
    from appendsOnly_ext[OF commit(1)] obtain ext where
      ext: "calls w2 = calls w @ ext" "list_all isAppendCall ext" by blast
    have mg: "mergeContinueAsNewReplicationTasks ?m (Some ?s) =
       (Return (if list_ex isHistoryReplication (mu_ReplicationTasks ?m) then None
              else Some (InternalServiceError
                ''unable to find replication task from current workflow for continue as new replication'')),
        ?m\<lparr>mu_ReplicationTasks :=
            map (stampNewRun (hrt_BranchToken t) (hrt_EventStoreVersion t)) (mu_ReplicationTasks ?m)\<rparr>,
        Some (?s\<lparr>sn_ReplicationTasks := []\<rparr>))"
      using assms(3,4,6) by (intro merge_single_history_task) simp_all
    from commitUpdate_calls[OF commit(2)]
    consider (none) "r \<noteq> Return None" "calls w' = calls w2"
      | (some) m1 s1 n where
          "mergeContinueAsNewReplicationTasks ?m (Some ?s) = (Return None, m1, s1)" "1 \<le> n"
          "calls w' = calls w2 @ replicate n (CallUpdateWorkflowExecution
                \<lparr>ur_UpdateWorkflowMutation = m1, ur_NewWorkflowSnapshot = s1\<rparr>)"
      by blast
    then show ?thesis
    proof cases
      case none
      with ext show ?thesis by auto
    next
      case some
      from some(1) mg have
        "m1 = m\<lparr>mu_ExecutionStats := Some \<lparr>HistorySize = k\<rparr>,
                mu_ReplicationTasks :=
                  map (stampNewRun (hrt_BranchToken t) (hrt_EventStoreVersion t))
                    (mu_ReplicationTasks m)\<rparr>"
        "s1 = Some (snapshot\<lparr>sn_ExecutionStats := Some \<lparr>HistorySize = j\<rparr>,
                                 sn_ReplicationTasks := []\<rparr>)"
        by simp_all
      with some(2,3) ext show ?thesis by auto
    qed
  qed
qed

lemma update_paired_submits_merged:
  assumes "msBuilder c = Some ms0"
    and "fst (CloseTransactionAsMutation M ms0 now pol) = Inr (m, seq)"
    and "ei_CloseStatus (mu_ExecutionInfo m) = WorkflowCloseStatusContinuedAsNew"
    and "mu_ReplicationTasks m \<noteq> []"
    and "fst (CloseTransactionAsSnapshot M nms now np) = Inr (snapshot, newSeq)"
    and "sn_ReplicationTasks snapshot = [HistoryReplication t]"
    and "updateWorkflowExecutionWithNew S M c now (Some nc) (Some nms) pol (Some np) w
           = (r, c', nc', w')"
  shows "\<exists>k j.
      (\<forall>request. CallUpdateWorkflowExecution request \<in> set (drop (length (calls w)) (calls w'))
         \<longrightarrow> request =
               \<lparr>ur_UpdateWorkflowMutation =
                  m\<lparr>mu_ExecutionStats := Some \<lparr>HistorySize = k\<rparr>,
                    mu_ReplicationTasks :=
                      map (stampNewRun (hrt_BranchToken t) (hrt_EventStoreVersion t))
                        (mu_ReplicationTasks m)\<rparr>,
                ur_NewWorkflowSnapshot =
                  Some (snapshot\<lparr>sn_ExecutionStats := Some \<lparr>HistorySize = j\<rparr>,
                                 sn_ReplicationTasks := []\<rparr>)\<rparr>)
      \<and> (r = Return None \<longrightarrow> calls w' \<noteq> []
           \<and> last (calls w') = CallUpdateWorkflowExecution
               \<lparr>ur_UpdateWorkflowMutation =
                  m\<lparr>mu_ExecutionStats := Some \<lparr>HistorySize = k\<rparr>,
                    mu_ReplicationTasks :=
                      map (stampNewRun (hrt_BranchToken t) (hrt_EventStoreVersion t))
                        (mu_ReplicationTasks m)\<rparr>,
                ur_NewWorkflowSnapshot =
                  Some (snapshot\<lparr>sn_ExecutionStats := Some \<lparr>HistorySize = j\<rparr>,
                                 sn_ReplicationTasks := []\<rparr>)\<rparr>)"
proof -
  from update_paired_can_calls[OF assms]
  consider (early) ext where "r \<noteq> Return None" "calls w' = calls w @ ext"
      "list_all isAppendCall ext"
    | (commit) k j n ext where "1 \<le> n" "list_all isAppendCall ext"
        "calls w' = calls w @ ext @ replicate n (CallUpdateWorkflowExecution
               \<lparr>ur_UpdateWorkflowMutation =
                  m\<lparr>mu_ExecutionStats := Some \<lparr>HistorySize = k\<rparr>,
                    mu_ReplicationTasks :=
                      map (stampNewRun (hrt_BranchToken t) (hrt_EventStoreVersion t))
                        (mu_ReplicationTasks m)\<rparr>,
                ur_NewWorkflowSnapshot =
                  Some (snapshot\<lparr>sn_ExecutionStats := Some \<lparr>HistorySize = j\<rparr>,
                                 sn_ReplicationTasks := []\<rparr>)\<rparr>)"
    by blast
  then show ?thesis
  proof cases
    case early
    from early(3) have "\<And>request. CallUpdateWorkflowExecution request \<notin> set ext"
      by (auto simp: list_all_iff not_append_update)
    with early(1,2) show ?thesis by simp
  next
    case commit
    from commit(1) obtain n' where n': "n = Suc n'" by (cases n) auto
    show ?thesis
      apply (rule exI[of _ k], rule exI[of _ j])
      using commit(2) unfolding commit(3) n'
      by (auto simp: list_all_iff not_append_update)
  qed
qed

lemma update_paired_commits_merged:
  assumes "msBuilder c = Some ms0"
    and "fst (CloseTransactionAsMutation M ms0 now pol) = Inr (m, seq)"
    and "ei_CloseStatus (mu_ExecutionInfo m) = WorkflowCloseStatusContinuedAsNew"
    and "mu_ReplicationTasks m \<noteq> []"
    and "fst (CloseTransactionAsSnapshot M nms now np) = Inr (snapshot, newSeq)"
    and "sn_ReplicationTasks snapshot = [HistoryReplication t]"
    and "updateWorkflowExecutionWithNew S M c now (Some nc) (Some nms) pol (Some np) w
           = (r, c', nc', w')"
  shows "\<exists>k j.
      (\<forall>request. CallUpdateWorkflowExecution request \<in> set (drop (length (calls w)) (calls w'))
         \<longrightarrow> request = mergedRequest m snapshot t k j)
      \<and> (r = Return None \<longrightarrow> calls w' \<noteq> []
           \<and> last (calls w') = CallUpdateWorkflowExecution (mergedRequest m snapshot t k j))
      \<and> (\<forall>h. HistoryReplication h
                \<in> set (mu_ReplicationTasks (ur_UpdateWorkflowMutation (mergedRequest m snapshot t k j)))
            \<longrightarrow> hrt_NewRunBranchToken h = hrt_BranchToken t
                \<and> hrt_NewRunEventStoreVersion h = hrt_EventStoreVersion t)
      \<and> (\<exists>sn. ur_NewWorkflowSnapshot (mergedRequest m snapshot t k j) = Some sn
            \<and> sn_ReplicationTasks sn = [])"
proof -
  from update_paired_submits_merged[OF assms] obtain k j where
    kj: "\<forall>request. CallUpdateWorkflowExecution request \<in> set (drop (length (calls w)) (calls w'))
         \<longrightarrow> request = mergedRequest m snapshot t k j"
      "r = Return None \<longrightarrow> calls w' \<noteq> []
           \<and> last (calls w') = CallUpdateWorkflowExecution (mergedRequest m snapshot t k j)"
    unfolding mergedRequest_def by blast
  have carries: "\<forall>h. HistoryReplication h
                \<in> set (mu_ReplicationTasks (ur_UpdateWorkflowMutation (mergedRequest m snapshot t k j)))
            \<longrightarrow> hrt_NewRunBranchToken h = hrt_BranchToken t
                \<and> hrt_NewRunEventStoreVersion h = hrt_EventStoreVersion t"
    using stampNewRun_carries by (auto simp: mergedRequest_def)
  have emptied: "\<exists>sn. ur_NewWorkflowSnapshot (mergedRequest m snapshot t k j) = Some sn
            \<and> sn_ReplicationTasks sn = []"
    by (simp add: mergedRequest_def)
  from kj carries emptied show ?thesis by blast
qed

subsection \<open>Empty batches\<close>

text \<open>
  Claim C7. For a batch with an empty events list, \<open>persistFirstWorkflowEvents\<close>
  returns size 0 and an internal error, and \<open>persistNonFirstWorkflowEvents\<close> returns
  size 0 and no error; both return the world as it was, so neither calls storage. An
  update whose batches all have empty events lists therefore still commits: when the
  merge has nothing to do and storage accepts the update, the update returns no error,
  the one storage call it issued is the update itself, whose mutation carries the
  history size the context had, and the context's history size is unchanged.
\<close>

theorem empty_batch_first_rejected_nonfirst_noop:
  "(we_Events workflowEvents = [] \<longrightarrow>
     persistFirstWorkflowEvents S workflowEvents w =
       ((0, Some (InternalServiceError
                    ''cannot persist first workflow events with empty events'')), w)
     \<and> persistNonFirstWorkflowEvents S workflowEvents w = ((0, None), w)
     \<and> persistNonFirstLoop S [workflowEvents] n w = (Inr n, w))
   \<and> (msBuilder c = Some ms0
      \<and> CloseTransactionAsMutation M ms0 now pol = (Inr (m, workflowEventsSeq), ms)
      \<and> (\<forall>b \<in> set workflowEventsSeq. we_Events b = [])
      \<and> stats c = Some st
      \<and> (ei_CloseStatus (mu_ExecutionInfo m) \<noteq> WorkflowCloseStatusContinuedAsNew
           \<or> mu_ReplicationTasks m = [])
      \<and> UpdateWorkflowExecution S (length (calls w))
           \<lparr>ur_UpdateWorkflowMutation =
              m\<lparr>mu_ExecutionStats := Some \<lparr>HistorySize = HistorySize st\<rparr>\<rparr>,
            ur_NewWorkflowSnapshot = None\<rparr> = Inr u
    \<longrightarrow> fst (updateWorkflowExecutionWithNew S M c now None None pol None w) = Return None
       \<and> calls (snd (snd (snd (updateWorkflowExecutionWithNew S M c now None None pol None w))))
           = calls w @ [CallUpdateWorkflowExecution
               \<lparr>ur_UpdateWorkflowMutation =
                  m\<lparr>mu_ExecutionStats := Some \<lparr>HistorySize = HistorySize st\<rparr>\<rparr>,
                ur_NewWorkflowSnapshot = None\<rparr>]
       \<and> stats (fst (snd (updateWorkflowExecutionWithNew S M c now None None pol None w)))
           = Some st
       \<and> msBuilder (fst (snd (updateWorkflowExecutionWithNew S M c now None None pol None w)))
           = Some ms)"
  apply (rule conjI)
   apply (simp add: persistFirstWorkflowEvents_def persistNonFirstWorkflowEvents_def)
  apply (intro impI, elim conjE)
  apply (rule update_without_events_commits; assumption)
  done

theorem empty_batch_witness:
  "we_Events (sampleBatch ''R1'' []) = []
   \<and> persistFirstWorkflowEvents (scriptedShard (\<lambda>n. None)) (sampleBatch ''R1'' []) emptyWorld =
       ((0, Some (InternalServiceError
                    ''cannot persist first workflow events with empty events'')), emptyWorld)
   \<and> persistNonFirstWorkflowEvents (scriptedShard (\<lambda>n. None)) (sampleBatch ''R1'' [])
       emptyWorld = ((0, None), emptyWorld)
   \<and> persistNonFirstLoop (scriptedShard (\<lambda>n. None)) [sampleBatch ''R1'' []] 50 emptyWorld
       = (Inr 50, emptyWorld)
   \<and> CloseTransactionAsMutation scriptedOps silentState 0 transactionPolicyActive
       = (Inr (sampleMutation 7 (WorkflowCloseStatusOther 0) [], [sampleBatch ''R1'' []]),
          silentState)
   \<and> fst (updateWorkflowExecutionWithNew (scriptedShard (\<lambda>n. None)) scriptedOps
            (sampleContext (Some silentState) 7) 0 None None transactionPolicyActive None
            emptyWorld) = Return None
   \<and> calls (snd (snd (snd (updateWorkflowExecutionWithNew (scriptedShard (\<lambda>n. None))
            scriptedOps (sampleContext (Some silentState) 7) 0 None None
            transactionPolicyActive None emptyWorld))))
       = [CallUpdateWorkflowExecution
            \<lparr>ur_UpdateWorkflowMutation =
               (sampleMutation 7 (WorkflowCloseStatusOther 0) [])
                 \<lparr>mu_ExecutionStats := Some \<lparr>HistorySize = 50\<rparr>\<rparr>,
             ur_NewWorkflowSnapshot = None\<rparr>]
   \<and> stats (fst (snd (updateWorkflowExecutionWithNew (scriptedShard (\<lambda>n. None)) scriptedOps
            (sampleContext (Some silentState) 7) 0 None None transactionPolicyActive None
            emptyWorld))) = Some \<lparr>HistorySize = 50\<rparr>"
proof -
  let ?S = "scriptedShard (\<lambda>n. None)"
  let ?m = "sampleMutation 7 (WorkflowCloseStatusOther 0) []"
  have p: "we_Events (sampleBatch ''R1'' []) = []"
    by (simp add: sampleBatch_def)
  from empty_batch_first_rejected_nonfirst_noop
         [where workflowEvents = "sampleBatch ''R1'' []" and S = ?S and w = emptyWorld
            and n = 50, THEN conjunct1, rule_format, OF p]
  have a: "persistFirstWorkflowEvents ?S (sampleBatch ''R1'' []) emptyWorld =
       ((0, Some (InternalServiceError
                    ''cannot persist first workflow events with empty events'')), emptyWorld)
     \<and> persistNonFirstWorkflowEvents ?S (sampleBatch ''R1'' []) emptyWorld
         = ((0, None), emptyWorld)
     \<and> persistNonFirstLoop ?S [sampleBatch ''R1'' []] 50 emptyWorld = (Inr 50, emptyWorld)" .
  have cl: "CloseTransactionAsMutation scriptedOps silentState 0 transactionPolicyActive
       = (Inr (?m, [sampleBatch ''R1'' []]), silentState)"
    by (simp add: scriptedOps_def silentState_def scriptedState_def)
  have h: "msBuilder (sampleContext (Some silentState) 7) = Some silentState
      \<and> CloseTransactionAsMutation scriptedOps silentState 0 transactionPolicyActive
          = (Inr (?m, [sampleBatch ''R1'' []]), silentState)
      \<and> (\<forall>b \<in> set [sampleBatch ''R1'' []]. we_Events b = [])
      \<and> stats (sampleContext (Some silentState) 7) = Some \<lparr>HistorySize = 50\<rparr>
      \<and> (ei_CloseStatus (mu_ExecutionInfo ?m) \<noteq> WorkflowCloseStatusContinuedAsNew
           \<or> mu_ReplicationTasks ?m = [])
      \<and> UpdateWorkflowExecution ?S (length (calls emptyWorld))
           \<lparr>ur_UpdateWorkflowMutation =
              ?m\<lparr>mu_ExecutionStats := Some \<lparr>HistorySize = HistorySize \<lparr>HistorySize = 50\<rparr>\<rparr>\<rparr>,
            ur_NewWorkflowSnapshot = None\<rparr> = Inr ()"
    using cl by (simp add: sample_defs)
  from empty_batch_first_rejected_nonfirst_noop
         [where c = "sampleContext (Some silentState) 7" and ?ms0.0 = silentState
            and M = scriptedOps and now = 0 and pol = transactionPolicyActive and m = ?m
            and workflowEventsSeq = "[sampleBatch ''R1'' []]" and ms = silentState
            and st = "\<lparr>HistorySize = 50\<rparr>" and S = ?S and w = emptyWorld and u = "()",
          THEN conjunct2, rule_format, OF h]
  have b: "fst (updateWorkflowExecutionWithNew ?S scriptedOps
            (sampleContext (Some silentState) 7) 0 None None transactionPolicyActive None
            emptyWorld) = Return None
   \<and> calls (snd (snd (snd (updateWorkflowExecutionWithNew ?S
            scriptedOps (sampleContext (Some silentState) 7) 0 None None
            transactionPolicyActive None emptyWorld))))
       = [CallUpdateWorkflowExecution
            \<lparr>ur_UpdateWorkflowMutation = ?m\<lparr>mu_ExecutionStats := Some \<lparr>HistorySize = 50\<rparr>\<rparr>,
             ur_NewWorkflowSnapshot = None\<rparr>]
   \<and> stats (fst (snd (updateWorkflowExecutionWithNew ?S scriptedOps
            (sampleContext (Some silentState) 7) 0 None None transactionPolicyActive None
            emptyWorld))) = Some \<lparr>HistorySize = 50\<rparr>"
    by (simp add: emptyWorld_def)
  from p a cl b show ?thesis
    by (elim conjE) (intro conjI, assumption+)
qed

subsection \<open>Reset with buffered events\<close>

text \<open>
  Claim C6. A reset whose new mutable state has buffered events returns the internal
  error. The context comes back unchanged and the world differs only by the one clock
  reading: no storage call was issued (no history append, no reset) and nothing was
  notified.
\<close>

theorem reset_refuses_buffered_events:
  "HasBufferedEvents M newMutableState \<Longrightarrow>
     resetWorkflowExecution S M c currMutableState updateCurr closeTask cleanupTask
       newMutableState newHistorySize newTransferTasks newTimerTasks currReplicationTasks
       newReplicationTasks baseRunID baseRunNextEventID w =
     (Return (Some (InternalServiceError
        ''reset workflow execution shouldn't have buffered events'')),
      c, w\<lparr>clockReads := Suc (clockReads w)\<rparr>)
   \<and> calls (w\<lparr>clockReads := Suc (clockReads w)\<rparr>) = calls w"
  by (simp add: resetWorkflowExecution_def readClock_def setTaskInfo_def)

theorem reset_refuses_buffered_events_witness:
  "HasBufferedEvents scriptedOps bufferedState
   \<and> fst (resetWorkflowExecution (scriptedShard (\<lambda>n. None)) scriptedOps
            (sampleContext (Some bufferedState) 7) bufferedState True None None
            bufferedState 0 [] [] [] [] ''R0'' 5 emptyWorld) =
       Return (Some (InternalServiceError
         ''reset workflow execution shouldn't have buffered events''))
   \<and> calls (snd (snd (resetWorkflowExecution (scriptedShard (\<lambda>n. None)) scriptedOps
            (sampleContext (Some bufferedState) 7) bufferedState True None None
            bufferedState 0 [] [] [] [] ''R0'' 5 emptyWorld))) = []"
proof -
  have h: "HasBufferedEvents scriptedOps bufferedState"
    by (simp add: scriptedOps_def bufferedState_def scriptedState_def)
  show ?thesis
    using h reset_refuses_buffered_events [OF h,
        of "scriptedShard (\<lambda>n. None)" "sampleContext (Some bufferedState) 7" bufferedState
           True None None 0 "[]" "[]" "[]" "[]" "''R0''" 5 emptyWorld]
    by (simp add: emptyWorld_def)
qed

subsection \<open>Conflict resolve that produces events\<close>

text \<open>
  Claim C5, as the code has it. The replacement mutable state is closed as a snapshot
  under the passive policy. When that close fails, its error is returned; when it
  produces one or more event batches, the call returns a bad-request error (the claim
  says an internal error). In both cases the context and the world come back
  unchanged: no storage call was issued, and the error did not pass through the retry
  harness.
\<close>

theorem conflictResolve_rejects_events:
  "(fst (CloseTransactionAsSnapshot M resetMutableState now transactionPolicyPassive) = Inl err
      \<longrightarrow> conflictResolveWorkflowExecution S M c now prevRunID prevLastWriteVersion prevState
            resetMutableState resetHistorySize w = (Return (None, Some err), c, w))
   \<and> (fst (CloseTransactionAsSnapshot M resetMutableState now transactionPolicyPassive)
         = Inr (resetWorkflow, workflowEventsSeq) \<and> workflowEventsSeq \<noteq> []
      \<longrightarrow> conflictResolveWorkflowExecution S M c now prevRunID prevLastWriteVersion prevState
            resetMutableState resetHistorySize w =
          (Return (None, Some (BadRequestError
             ''reset mutable state should not generate new events'')), c, w))"
  by (simp add: conflictResolveWorkflowExecution_def)

theorem conflictResolve_rejects_events_witness:
  "fst (CloseTransactionAsSnapshot scriptedOps eventfulState 0 transactionPolicyPassive)
     = Inr (sampleSnapshot [], [sampleBatch ''R1'' [\<lparr>EventId = 7, Version = 0\<rparr>]])
   \<and> [sampleBatch ''R1'' [\<lparr>EventId = 7, Version = 0\<rparr>]] \<noteq> []
   \<and> conflictResolveWorkflowExecution (scriptedShard (\<lambda>n. None)) scriptedOps
       (sampleContext (Some eventfulState) 7) 0 ''R0'' 0 0 eventfulState 50 emptyWorld =
     (Return (None, Some (BadRequestError
        ''reset mutable state should not generate new events'')),
      sampleContext (Some eventfulState) 7, emptyWorld)
   \<and> fst (CloseTransactionAsSnapshot scriptedOps failingCloseState 0 transactionPolicyPassive)
     = Inl (OtherError ''close failed'')
   \<and> conflictResolveWorkflowExecution (scriptedShard (\<lambda>n. None)) scriptedOps
       (sampleContext (Some quietState) 7) 0 ''R0'' 0 0 failingCloseState 50 emptyWorld =
     (Return (None, Some (OtherError ''close failed'')),
      sampleContext (Some quietState) 7, emptyWorld)"
proof -
  have h: "fst (CloseTransactionAsSnapshot scriptedOps eventfulState 0 transactionPolicyPassive)
     = Inr (sampleSnapshot [], [sampleBatch ''R1'' [\<lparr>EventId = 7, Version = 0\<rparr>]])"
    by (simp add: scriptedOps_def eventfulState_def scriptedState_def)
  have p: "fst (CloseTransactionAsSnapshot scriptedOps eventfulState 0 transactionPolicyPassive)
     = Inr (sampleSnapshot [], [sampleBatch ''R1'' [\<lparr>EventId = 7, Version = 0\<rparr>]])
   \<and> [sampleBatch ''R1'' [\<lparr>EventId = 7, Version = 0\<rparr>]] \<noteq> []
   \<and> conflictResolveWorkflowExecution (scriptedShard (\<lambda>n. None)) scriptedOps
       (sampleContext (Some eventfulState) 7) 0 ''R0'' 0 0 eventfulState 50 emptyWorld =
     (Return (None, Some (BadRequestError
        ''reset mutable state should not generate new events'')),
      sampleContext (Some eventfulState) 7, emptyWorld)"
    using h conflictResolve_rejects_events
        [of scriptedOps eventfulState 0 "OtherError []" "scriptedShard (\<lambda>n. None)"
            "sampleContext (Some eventfulState) 7" "''R0''" 0 0 50 emptyWorld
            "sampleSnapshot []" "[sampleBatch ''R1'' [\<lparr>EventId = 7, Version = 0\<rparr>]]"]
    by simp
  have g: "fst (CloseTransactionAsSnapshot scriptedOps failingCloseState 0 transactionPolicyPassive)
     = Inl (OtherError ''close failed'')"
    by (simp add: sample_defs)
  from conflictResolve_rejects_events
        [where M = scriptedOps and resetMutableState = failingCloseState and now = 0
           and err = "OtherError ''close failed''" and S = "scriptedShard (\<lambda>n. None)"
           and c = "sampleContext (Some quietState) 7" and prevRunID = "''R0''"
           and prevLastWriteVersion = 0 and prevState = 0 and resetHistorySize = 50
           and w = emptyWorld, THEN conjunct1] g
  have q: "fst (CloseTransactionAsSnapshot scriptedOps failingCloseState 0 transactionPolicyPassive)
     = Inl (OtherError ''close failed'')
   \<and> conflictResolveWorkflowExecution (scriptedShard (\<lambda>n. None)) scriptedOps
       (sampleContext (Some quietState) 7) 0 ''R0'' 0 0 failingCloseState 50 emptyWorld =
     (Return (None, Some (OtherError ''close failed'')),
      sampleContext (Some quietState) 7, emptyWorld)"
    by simp
  from p q show ?thesis
    by (elim conjE) (intro conjI, assumption+)
qed

theorem conflictResolve_error_kind_counterexample:
  "fst (CloseTransactionAsSnapshot scriptedOps eventfulState 0 transactionPolicyPassive)
     = Inr (sampleSnapshot [], [sampleBatch ''R1'' [\<lparr>EventId = 7, Version = 0\<rparr>]])
   \<and> fst (conflictResolveWorkflowExecution (scriptedShard (\<lambda>n. None)) scriptedOps
            (sampleContext (Some eventfulState) 7) 0 ''R0'' 0 0 eventfulState 50 emptyWorld)
       = Return (None, Some (BadRequestError
           ''reset mutable state should not generate new events''))
   \<and> \<not> (\<exists>msg. fst (conflictResolveWorkflowExecution (scriptedShard (\<lambda>n. None)) scriptedOps
            (sampleContext (Some eventfulState) 7) 0 ''R0'' 0 0 eventfulState 50 emptyWorld)
       = Return (None, Some (InternalServiceError msg)))"
  by (simp add: conflictResolveWorkflowExecution_def scriptedOps_def eventfulState_def
        scriptedState_def)

subsection \<open>The unchecked cast in the continue-as-new merge\<close>

text \<open>
  Claim C10. The merge panics exactly when the current mutation is continued-as-new
  with replication tasks, the new snapshot carries exactly one replication task, and
  that task is not a history replication task; the panic is the failed interface
  conversion. The count check lets such a snapshot through, so the merge is free of the
  panic only when the one task is a history replication task.
\<close>

theorem merge_panics_iff_single_task_of_other_kind:
  "fst (mergeContinueAsNewReplicationTasks currentWorkflowMutation newWorkflowSnapshot) = Panic p
   \<longleftrightarrow> p = InterfaceConversion
       \<and> ei_CloseStatus (mu_ExecutionInfo currentWorkflowMutation)
           = WorkflowCloseStatusContinuedAsNew
       \<and> mu_ReplicationTasks currentWorkflowMutation \<noteq> []
       \<and> (\<exists>snapshot g. newWorkflowSnapshot = Some snapshot
             \<and> sn_ReplicationTasks snapshot = [OtherKind g])"
  by (auto simp: mergeContinueAsNewReplicationTasks_def Let_def length_Suc_conv
        split: option.splits Task.splits prod.splits if_splits)

theorem merge_panics_witness:
  "fst (mergeContinueAsNewReplicationTasks
          (sampleMutation 12 WorkflowCloseStatusContinuedAsNew
             [HistoryReplication (sampleHistoryTask [] 0)])
          (Some (sampleSnapshot [OtherKind sampleOtherTask]))) = Panic InterfaceConversion
   \<and> length (sn_ReplicationTasks (sampleSnapshot [OtherKind sampleOtherTask])) = 1
   \<and> (\<forall>p. fst (mergeContinueAsNewReplicationTasks
          (sampleMutation 12 WorkflowCloseStatusContinuedAsNew
             [HistoryReplication (sampleHistoryTask [] 0)])
          (Some (sampleSnapshot [HistoryReplication (sampleHistoryTask [1, 2] 2)]))) \<noteq> Panic p)"
  using merge_panics_iff_single_task_of_other_kind
          [of "sampleMutation 12 WorkflowCloseStatusContinuedAsNew
                 [HistoryReplication (sampleHistoryTask [] 0)]"
              "Some (sampleSnapshot [OtherKind sampleOtherTask])" InterfaceConversion]
        merge_panics_iff_single_task_of_other_kind
          [of "sampleMutation 12 WorkflowCloseStatusContinuedAsNew
                 [HistoryReplication (sampleHistoryTask [] 0)]"
              "Some (sampleSnapshot [HistoryReplication (sampleHistoryTask [1, 2] 2)])"]
  by (simp add: sampleMutation_def sampleSnapshot_def sampleInfo_def)

subsection \<open>What a failed commit leaves in the cache\<close>




subsection \<open>What a failed paired update leaves in the two caches\<close>

text \<open>
  Claim C2, as the code has it. A paired update that returns an error has cleared the
  current context. It has cleared the new context as well exactly when steps 1 and 2
  (closing the current run as a mutation and appending its batches) had succeeded, for
  the deferred call that clears the new context is registered only after them; an
  error of step 1 or 2 leaves the new context as it was.
\<close>

theorem paired_update_failure_clears:
  "updateWorkflowExecutionWithNew S M c now (Some newContext) (Some newMutableState) pol
      (Some newPolicy) w = (Return (Some e), c', newContext', w') \<Longrightarrow>
   msBuilder c' = None \<and> stats c' = None
   \<and> (if reachesNewRun S M c now pol w
      then \<exists>x. newContext' = Some x \<and> msBuilder x = None \<and> stats x = None
      else newContext' = Some newContext)"
proof -
  assume a: "updateWorkflowExecutionWithNew S M c now (Some newContext) (Some newMutableState)
      pol (Some newPolicy) w = (Return (Some e), c', newContext', w')"
  obtain r c1 nc1 w1 d where b:
    "updateWorkflowExecutionWithNewBody S M c now (Some newContext) (Some newMutableState) pol
       (Some newPolicy) w = (r, c1, nc1, w1, d)"
    by (metis surj_pair)
  from body_paired_flag[OF b] obtain x where
    f: "d = reachesNewRun S M c now pol w" "nc1 = Some x" "\<not> d \<longrightarrow> nc1 = Some newContext"
    by blast
  from a b have r: "r = Return (Some e)"
      "newContext' = (if d then map_option clear nc1 else nc1)"
    by (auto simp: updateWorkflowExecutionWithNew_def split: outcome.splits option.splits)
  from update_error_clears_current[OF a] f r show ?thesis
    by (auto simp: clear_def)
qed

theorem paired_update_failure_clears_witness:
  "updateWorkflowExecutionWithNew (scriptedShard (\<lambda>n. None)) scriptedOps
      (sampleContext (Some quietState) 7) 0 (Some (sampleContext (Some failingCloseState) 3))
      (Some failingCloseState) transactionPolicyActive (Some transactionPolicyActive) emptyWorld
    = (Return (Some (OtherError ''close failed'')),
       clear (sampleContext (Some quietState) 7),
       Some (clear (sampleContext (Some failingCloseState) 3)), emptyWorld)
   \<and> reachesNewRun (scriptedShard (\<lambda>n. None)) scriptedOps (sampleContext (Some quietState) 7) 0
        transactionPolicyActive emptyWorld
   \<and> msBuilder (clear (sampleContext (Some failingCloseState) 3)) = None
   \<and> stats (clear (sampleContext (Some failingCloseState) 3)) = None"
proof -
  have h: "updateWorkflowExecutionWithNew (scriptedShard (\<lambda>n. None)) scriptedOps
      (sampleContext (Some quietState) 7) 0 (Some (sampleContext (Some failingCloseState) 3))
      (Some failingCloseState) transactionPolicyActive (Some transactionPolicyActive) emptyWorld
    = (Return (Some (OtherError ''close failed'')),
       clear (sampleContext (Some quietState) 7),
       Some (clear (sampleContext (Some failingCloseState) 3)), emptyWorld)"
    by (simp add: run_defs sample_defs)
  have r: "reachesNewRun (scriptedShard (\<lambda>n. None)) scriptedOps (sampleContext (Some quietState) 7) 0
        transactionPolicyActive emptyWorld"
    by (simp add: run_defs sample_defs)
  from paired_update_failure_clears[OF h] h r show ?thesis by simp
qed

text \<open>
  The claim as stated fails when the current run's close fails: the new context keeps
  its cached mutable state and stats.
\<close>

theorem paired_update_early_failure_counterexample:
  "updateWorkflowExecutionWithNew (scriptedShard (\<lambda>n. None)) scriptedOps
      (sampleContext (Some failingCloseState) 7) 0 (Some (sampleContext (Some quietState) 3))
      (Some quietState) transactionPolicyActive (Some transactionPolicyActive) emptyWorld
    = (Return (Some (OtherError ''close failed'')),
       clear (sampleContext (Some failingCloseState) 7),
       Some (sampleContext (Some quietState) 3), emptyWorld)
   \<and> msBuilder (sampleContext (Some quietState) 3) = Some quietState
   \<and> stats (sampleContext (Some quietState) 3) = Some \<lparr>HistorySize = 50\<rparr>"
  by (simp add: run_defs sample_defs)

subsection \<open>The continue-as-new merge in an update\<close>

text \<open>
  Claim C3, as the code has it. Let the current mutation be continued-as-new with a
  non-empty list of replication tasks.
  \<^item> If the new snapshot carries exactly one replication task and that task is a history
    replication task, the merge returns: every task of the current mutation is stamped
    by \<open>stampNewRun\<close>, so every history replication task of the mutation carries that
    task's branch token and event store version as the new run's, and the new
    snapshot's replication tasks are empty. (The merge then reports an error exactly
    when the current mutation had no history replication task.)
  \<^item> If the new snapshot is absent or carries a number of replication tasks other than
    one, the merge returns the internal error and changes nothing; the commit step
    returns that error with the world as it was; and the whole update does not
    succeed and issues no storage update, only history appends.
  When the close status is not continued-as-new or the current mutation has no
  replication tasks, the merge changes nothing and reports no error.
  In a paired update whose current mutation is continued-as-new with replication tasks
  and whose new snapshot carries exactly one history replication task, every storage
  update the call issues is \<open>mergedRequest\<close>: it commits the stamped mutation and the
  snapshot without replication tasks; and a successful update has issued it, as its last
  storage call.
\<close>

theorem continue_as_new_merge:
  "(ei_CloseStatus (mu_ExecutionInfo m) = WorkflowCloseStatusContinuedAsNew
      \<and> mu_ReplicationTasks m \<noteq> []
      \<and> sn_ReplicationTasks snapshot = [HistoryReplication t]
    \<longrightarrow> (\<exists>r m'. mergeContinueAsNewReplicationTasks m (Some snapshot)
                  = (Return r, m', Some (snapshot\<lparr>sn_ReplicationTasks := []\<rparr>))
          \<and> m' = m\<lparr>mu_ReplicationTasks :=
                    map (stampNewRun (hrt_BranchToken t) (hrt_EventStoreVersion t))
                      (mu_ReplicationTasks m)\<rparr>
          \<and> (\<forall>h. HistoryReplication h \<in> set (mu_ReplicationTasks m') \<longrightarrow>
                 hrt_NewRunBranchToken h = hrt_BranchToken t
                 \<and> hrt_NewRunEventStoreVersion h = hrt_EventStoreVersion t)
          \<and> (r = None \<longleftrightarrow> list_ex isHistoryReplication (mu_ReplicationTasks m))))
   \<and> (ei_CloseStatus (mu_ExecutionInfo m) = WorkflowCloseStatusContinuedAsNew
      \<and> mu_ReplicationTasks m \<noteq> []
      \<and> (s = None \<or> (\<exists>sn. s = Some sn \<and> length (sn_ReplicationTasks sn) \<noteq> 1))
    \<longrightarrow> mergeContinueAsNewReplicationTasks m s =
          (Return (Some (InternalServiceError
             ''unable to find replication task from new workflow for continue as new replication'')),
           m, s)
        \<and> commitUpdate S M c ms m s w =
          (Return (Some (InternalServiceError
             ''unable to find replication task from new workflow for continue as new replication'')),
           c, w))
   \<and> (msBuilder c = Some ms0
      \<and> fst (CloseTransactionAsMutation M ms0 now pol) = Inr (m, workflowEventsSeq)
      \<and> ei_CloseStatus (mu_ExecutionInfo m) = WorkflowCloseStatusContinuedAsNew
      \<and> mu_ReplicationTasks m \<noteq> []
      \<and> (newContext = None \<or> newMutableState = None \<or> newPolicy = None)
    \<longrightarrow> fst (updateWorkflowExecutionWithNew S M c now newContext newMutableState pol
               newPolicy w) \<noteq> Return None
        \<and> \<not> list_ex isUpdateCall (drop (length (calls w))
              (calls (snd (snd (snd (updateWorkflowExecutionWithNew S M c now newContext
                 newMutableState pol newPolicy w)))))))
   \<and> (msBuilder c = Some ms0
      \<and> fst (CloseTransactionAsMutation M ms0 now pol) = Inr (m, workflowEventsSeq)
      \<and> ei_CloseStatus (mu_ExecutionInfo m) = WorkflowCloseStatusContinuedAsNew
      \<and> mu_ReplicationTasks m \<noteq> []
      \<and> fst (CloseTransactionAsSnapshot M nms now np) = Inr (snapshot, newEventsSeq)
      \<and> length (sn_ReplicationTasks snapshot) \<noteq> 1
    \<longrightarrow> fst (updateWorkflowExecutionWithNew S M c now (Some nc) (Some nms) pol (Some np) w)
           \<noteq> Return None
        \<and> \<not> list_ex isUpdateCall (drop (length (calls w))
              (calls (snd (snd (snd (updateWorkflowExecutionWithNew S M c now (Some nc)
                 (Some nms) pol (Some np) w)))))))
   \<and> (ei_CloseStatus (mu_ExecutionInfo m) \<noteq> WorkflowCloseStatusContinuedAsNew
      \<or> mu_ReplicationTasks m = []
    \<longrightarrow> mergeContinueAsNewReplicationTasks m s = (Return None, m, s))
   \<and> (msBuilder c = Some ms0
      \<and> fst (CloseTransactionAsMutation M ms0 now pol) = Inr (m, workflowEventsSeq)
      \<and> ei_CloseStatus (mu_ExecutionInfo m) = WorkflowCloseStatusContinuedAsNew
      \<and> mu_ReplicationTasks m \<noteq> []
      \<and> fst (CloseTransactionAsSnapshot M nms now np) = Inr (snapshot, newEventsSeq)
      \<and> sn_ReplicationTasks snapshot = [HistoryReplication t]
      \<and> updateWorkflowExecutionWithNew S M c now (Some nc) (Some nms) pol (Some np) w
          = (r, c', nc', w')
    \<longrightarrow> (\<exists>k j.
          (\<forall>request. CallUpdateWorkflowExecution request
                        \<in> set (drop (length (calls w)) (calls w'))
             \<longrightarrow> request = mergedRequest m snapshot t k j)
          \<and> (r = Return None \<longrightarrow> calls w' \<noteq> []
               \<and> last (calls w')
                   = CallUpdateWorkflowExecution (mergedRequest m snapshot t k j))
          \<and> (\<forall>h. HistoryReplication h
                    \<in> set (mu_ReplicationTasks
                             (ur_UpdateWorkflowMutation (mergedRequest m snapshot t k j)))
                \<longrightarrow> hrt_NewRunBranchToken h = hrt_BranchToken t
                    \<and> hrt_NewRunEventStoreVersion h = hrt_EventStoreVersion t)
          \<and> (\<exists>sn. ur_NewWorkflowSnapshot (mergedRequest m snapshot t k j) = Some sn
                \<and> sn_ReplicationTasks sn = [])))"
proof (intro conjI impI)
  assume a: "ei_CloseStatus (mu_ExecutionInfo m) = WorkflowCloseStatusContinuedAsNew
      \<and> mu_ReplicationTasks m \<noteq> []
      \<and> sn_ReplicationTasks snapshot = [HistoryReplication t]"
  then have eq: "mergeContinueAsNewReplicationTasks m (Some snapshot) =
     (Return (if list_ex isHistoryReplication (mu_ReplicationTasks m) then None
              else Some (InternalServiceError
                ''unable to find replication task from current workflow for continue as new replication'')),
      m\<lparr>mu_ReplicationTasks :=
          map (stampNewRun (hrt_BranchToken t) (hrt_EventStoreVersion t)) (mu_ReplicationTasks m)\<rparr>,
      Some (snapshot\<lparr>sn_ReplicationTasks := []\<rparr>))"
    by (simp add: merge_single_history_task)
  show "\<exists>r m'. mergeContinueAsNewReplicationTasks m (Some snapshot)
                  = (Return r, m', Some (snapshot\<lparr>sn_ReplicationTasks := []\<rparr>))
          \<and> m' = m\<lparr>mu_ReplicationTasks :=
                    map (stampNewRun (hrt_BranchToken t) (hrt_EventStoreVersion t))
                      (mu_ReplicationTasks m)\<rparr>
          \<and> (\<forall>h. HistoryReplication h \<in> set (mu_ReplicationTasks m') \<longrightarrow>
                 hrt_NewRunBranchToken h = hrt_BranchToken t
                 \<and> hrt_NewRunEventStoreVersion h = hrt_EventStoreVersion t)
          \<and> (r = None \<longleftrightarrow> list_ex isHistoryReplication (mu_ReplicationTasks m))"
    unfolding eq using stampNewRun_carries by (intro exI conjI) (rule refl, rule refl, auto)
next
  assume a: "ei_CloseStatus (mu_ExecutionInfo m) = WorkflowCloseStatusContinuedAsNew
      \<and> mu_ReplicationTasks m \<noteq> []
      \<and> (s = None \<or> (\<exists>sn. s = Some sn \<and> length (sn_ReplicationTasks sn) \<noteq> 1))"
  then show "mergeContinueAsNewReplicationTasks m s =
          (Return (Some (InternalServiceError
             ''unable to find replication task from new workflow for continue as new replication'')),
           m, s)"
    by (simp add: merge_wrong_count)
  from a show "commitUpdate S M c ms m s w =
          (Return (Some (InternalServiceError
             ''unable to find replication task from new workflow for continue as new replication'')),
           c, w)"
    by (simp add: commitUpdate_merge_fails)
next
  assume a: "msBuilder c = Some ms0
      \<and> fst (CloseTransactionAsMutation M ms0 now pol) = Inr (m, workflowEventsSeq)
      \<and> ei_CloseStatus (mu_ExecutionInfo m) = WorkflowCloseStatusContinuedAsNew
      \<and> mu_ReplicationTasks m \<noteq> []
      \<and> (newContext = None \<or> newMutableState = None \<or> newPolicy = None)"
  then have u: "fst (updateWorkflowExecutionWithNew S M c now newContext newMutableState pol
               newPolicy w) \<noteq> Return None
     \<and> appendsOnly w (snd (snd (snd (updateWorkflowExecutionWithNew S M c now newContext
                 newMutableState pol newPolicy w))))"
    by (intro update_unpaired_merge_fails[where cw = m and seq = workflowEventsSeq
          and ?ms0.0 = ms0]) simp_all
  from u show "fst (updateWorkflowExecutionWithNew S M c now newContext newMutableState pol
               newPolicy w) \<noteq> Return None" by simp
  from u show "\<not> list_ex isUpdateCall (drop (length (calls w))
              (calls (snd (snd (snd (updateWorkflowExecutionWithNew S M c now newContext
                 newMutableState pol newPolicy w))))))"
    by (simp add: appendsOnly_no_update)
next
  assume a: "msBuilder c = Some ms0
      \<and> fst (CloseTransactionAsMutation M ms0 now pol) = Inr (m, workflowEventsSeq)
      \<and> ei_CloseStatus (mu_ExecutionInfo m) = WorkflowCloseStatusContinuedAsNew
      \<and> mu_ReplicationTasks m \<noteq> []
      \<and> fst (CloseTransactionAsSnapshot M nms now np) = Inr (snapshot, newEventsSeq)
      \<and> length (sn_ReplicationTasks snapshot) \<noteq> 1"
  then have u: "fst (updateWorkflowExecutionWithNew S M c now (Some nc) (Some nms) pol (Some np) w)
           \<noteq> Return None
     \<and> appendsOnly w (snd (snd (snd
          (updateWorkflowExecutionWithNew S M c now (Some nc) (Some nms) pol (Some np) w))))"
    by (intro update_paired_merge_fails[where cw = m and seq = workflowEventsSeq
          and snap = snapshot and ?seq2.0 = newEventsSeq and ?ms0.0 = ms0]) simp_all
  from u show "fst (updateWorkflowExecutionWithNew S M c now (Some nc) (Some nms) pol (Some np) w)
           \<noteq> Return None" by simp
  from u show "\<not> list_ex isUpdateCall (drop (length (calls w))
              (calls (snd (snd (snd (updateWorkflowExecutionWithNew S M c now (Some nc)
                 (Some nms) pol (Some np) w))))))"
    by (simp add: appendsOnly_no_update)
next
  assume "ei_CloseStatus (mu_ExecutionInfo m) \<noteq> WorkflowCloseStatusContinuedAsNew
      \<or> mu_ReplicationTasks m = []"
  then show "mergeContinueAsNewReplicationTasks m s = (Return None, m, s)"
    by (rule merge_noop)
next
  assume "msBuilder c = Some ms0
      \<and> fst (CloseTransactionAsMutation M ms0 now pol) = Inr (m, workflowEventsSeq)
      \<and> ei_CloseStatus (mu_ExecutionInfo m) = WorkflowCloseStatusContinuedAsNew
      \<and> mu_ReplicationTasks m \<noteq> []
      \<and> fst (CloseTransactionAsSnapshot M nms now np) = Inr (snapshot, newEventsSeq)
      \<and> sn_ReplicationTasks snapshot = [HistoryReplication t]
      \<and> updateWorkflowExecutionWithNew S M c now (Some nc) (Some nms) pol (Some np) w
          = (r, c', nc', w')"
  then show "(\<exists>k j.
          (\<forall>request. CallUpdateWorkflowExecution request
                        \<in> set (drop (length (calls w)) (calls w'))
             \<longrightarrow> request = mergedRequest m snapshot t k j)
          \<and> (r = Return None \<longrightarrow> calls w' \<noteq> []
               \<and> last (calls w')
                   = CallUpdateWorkflowExecution (mergedRequest m snapshot t k j))
          \<and> (\<forall>h. HistoryReplication h
                    \<in> set (mu_ReplicationTasks
                             (ur_UpdateWorkflowMutation (mergedRequest m snapshot t k j)))
                \<longrightarrow> hrt_NewRunBranchToken h = hrt_BranchToken t
                    \<and> hrt_NewRunEventStoreVersion h = hrt_EventStoreVersion t)
          \<and> (\<exists>sn. ur_NewWorkflowSnapshot (mergedRequest m snapshot t k j) = Some sn
                \<and> sn_ReplicationTasks sn = []))"
    by (elim conjE) (rule update_paired_commits_merged)
qed

theorem continue_as_new_merge_witness:
  "mergeContinueAsNewReplicationTasks
      (sampleMutation 12 WorkflowCloseStatusContinuedAsNew
         [HistoryReplication (sampleHistoryTask [] 0)])
      (Some (sampleSnapshot [HistoryReplication (sampleHistoryTask [1, 2] 2)]))
    = (Return None,
       sampleMutation 12 WorkflowCloseStatusContinuedAsNew
         [HistoryReplication ((sampleHistoryTask [] 0)
            \<lparr>hrt_NewRunBranchToken := [1, 2], hrt_NewRunEventStoreVersion := 2\<rparr>)],
       Some (sampleSnapshot []))
   \<and> mergeContinueAsNewReplicationTasks
      (sampleMutation 12 WorkflowCloseStatusContinuedAsNew
         [HistoryReplication (sampleHistoryTask [] 0)]) None
    = (Return (Some (InternalServiceError
         ''unable to find replication task from new workflow for continue as new replication'')),
       sampleMutation 12 WorkflowCloseStatusContinuedAsNew
         [HistoryReplication (sampleHistoryTask [] 0)], None)
   \<and> mergeContinueAsNewReplicationTasks
      (sampleMutation 12 WorkflowCloseStatusContinuedAsNew [])
      (Some (sampleSnapshot [HistoryReplication (sampleHistoryTask [1, 2] 2)]))
    = (Return None, sampleMutation 12 WorkflowCloseStatusContinuedAsNew [],
       Some (sampleSnapshot [HistoryReplication (sampleHistoryTask [1, 2] 2)]))
   \<and> fst (updateWorkflowExecutionWithNew (scriptedShard (\<lambda>n. None)) scriptedOps
          (sampleContext (Some continuedState) 10) 0 None None transactionPolicyActive None
          emptyWorld)
     = Return (Some (InternalServiceError
         ''unable to find replication task from new workflow for continue as new replication''))
   \<and> \<not> list_ex isUpdateCall (calls (snd (snd (snd (updateWorkflowExecutionWithNew
          (scriptedShard (\<lambda>n. None)) scriptedOps (sampleContext (Some continuedState) 10) 0
          None None transactionPolicyActive None emptyWorld)))))
   \<and> fst (updateWorkflowExecutionWithNew (scriptedShard (\<lambda>n. None)) scriptedOps
          (sampleContext (Some continuedState) 10) 0 (Some (sampleContext None 0))
          (Some eventfulState) transactionPolicyActive (Some transactionPolicyActive)
          emptyWorld)
     \<noteq> Return None
   \<and> \<not> list_ex isUpdateCall (calls (snd (snd (snd (updateWorkflowExecutionWithNew
          (scriptedShard (\<lambda>n. None)) scriptedOps (sampleContext (Some continuedState) 10) 0
          (Some (sampleContext None 0)) (Some eventfulState) transactionPolicyActive
          (Some transactionPolicyActive) emptyWorld)))))
   \<and> fst (updateWorkflowExecutionWithNew (scriptedShard (\<lambda>n. None)) scriptedOps
          (sampleContext (Some continuedState) 10) 0 (Some (sampleContext None 0))
          (Some newRunState) transactionPolicyActive (Some transactionPolicyActive)
          emptyWorld) = Return None
   \<and> last (calls (snd (snd (snd (updateWorkflowExecutionWithNew (scriptedShard (\<lambda>n. None)) scriptedOps
          (sampleContext (Some continuedState) 10) 0 (Some (sampleContext None 0))
          (Some newRunState) transactionPolicyActive (Some transactionPolicyActive)
          emptyWorld)))))
       = CallUpdateWorkflowExecution (mergedRequest
            (sampleMutation 12 WorkflowCloseStatusContinuedAsNew
               [HistoryReplication (sampleHistoryTask [] 0)])
            (sampleSnapshot [HistoryReplication (sampleHistoryTask [1, 2] 2)])
            (sampleHistoryTask [1, 2] 2) 50 150)
   \<and> (\<exists>k j. last (calls (snd (snd (snd (updateWorkflowExecutionWithNew (scriptedShard (\<lambda>n. None)) scriptedOps
          (sampleContext (Some continuedState) 10) 0 (Some (sampleContext None 0))
          (Some newRunState) transactionPolicyActive (Some transactionPolicyActive)
          emptyWorld)))))
       = CallUpdateWorkflowExecution (mergedRequest
            (sampleMutation 12 WorkflowCloseStatusContinuedAsNew
               [HistoryReplication (sampleHistoryTask [] 0)])
            (sampleSnapshot [HistoryReplication (sampleHistoryTask [1, 2] 2)])
            (sampleHistoryTask [1, 2] 2) k j))
   \<and> mu_ReplicationTasks (ur_UpdateWorkflowMutation (mergedRequest
            (sampleMutation 12 WorkflowCloseStatusContinuedAsNew
               [HistoryReplication (sampleHistoryTask [] 0)])
            (sampleSnapshot [HistoryReplication (sampleHistoryTask [1, 2] 2)])
            (sampleHistoryTask [1, 2] 2) 50 150))
       = [HistoryReplication ((sampleHistoryTask [] 0)
            \<lparr>hrt_NewRunBranchToken := [1, 2], hrt_NewRunEventStoreVersion := 2\<rparr>)]"
proof -
  have p: "mergeContinueAsNewReplicationTasks
      (sampleMutation 12 WorkflowCloseStatusContinuedAsNew
         [HistoryReplication (sampleHistoryTask [] 0)])
      (Some (sampleSnapshot [HistoryReplication (sampleHistoryTask [1, 2] 2)]))
    = (Return None,
       sampleMutation 12 WorkflowCloseStatusContinuedAsNew
         [HistoryReplication ((sampleHistoryTask [] 0)
            \<lparr>hrt_NewRunBranchToken := [1, 2], hrt_NewRunEventStoreVersion := 2\<rparr>)],
       Some (sampleSnapshot []))
   \<and> mergeContinueAsNewReplicationTasks
      (sampleMutation 12 WorkflowCloseStatusContinuedAsNew
         [HistoryReplication (sampleHistoryTask [] 0)]) None
    = (Return (Some (InternalServiceError
         ''unable to find replication task from new workflow for continue as new replication'')),
       sampleMutation 12 WorkflowCloseStatusContinuedAsNew
         [HistoryReplication (sampleHistoryTask [] 0)], None)
   \<and> mergeContinueAsNewReplicationTasks
      (sampleMutation 12 WorkflowCloseStatusContinuedAsNew [])
      (Some (sampleSnapshot [HistoryReplication (sampleHistoryTask [1, 2] 2)]))
    = (Return None, sampleMutation 12 WorkflowCloseStatusContinuedAsNew [],
       Some (sampleSnapshot [HistoryReplication (sampleHistoryTask [1, 2] 2)]))"
    using continue_as_new_merge
          [where m = "sampleMutation 12 WorkflowCloseStatusContinuedAsNew
                        [HistoryReplication (sampleHistoryTask [] 0)]"
             and snapshot = "sampleSnapshot [HistoryReplication (sampleHistoryTask [1, 2] 2)]"
             and t = "sampleHistoryTask [1, 2] 2" and s = None, THEN conjunct1]
        continue_as_new_merge
          [where m = "sampleMutation 12 WorkflowCloseStatusContinuedAsNew
                        [HistoryReplication (sampleHistoryTask [] 0)]"
             and s = None and S = "scriptedShard (\<lambda>n. None)" and M = scriptedOps
             and c = "sampleContext None 0" and ms = quietState and w = emptyWorld,
           THEN conjunct2, THEN conjunct1]
        continue_as_new_merge
          [where m = "sampleMutation 12 WorkflowCloseStatusContinuedAsNew []"
             and s = "Some (sampleSnapshot [HistoryReplication (sampleHistoryTask [1, 2] 2)])",
           THEN conjunct2, THEN conjunct2, THEN conjunct2, THEN conjunct2, THEN conjunct1]
    by (simp add: sampleMutation_def sampleSnapshot_def sampleInfo_def sampleHistoryTask_def
          stampNewRun_def isHistoryReplication_def)
  let ?S = "scriptedShard (\<lambda>n. None)"
  let ?c = "sampleContext (Some continuedState) 10"
  let ?m = "sampleMutation 12 WorkflowCloseStatusContinuedAsNew
              [HistoryReplication (sampleHistoryTask [] 0)]"
  have h: "msBuilder ?c = Some continuedState
      \<and> fst (CloseTransactionAsMutation scriptedOps continuedState 0 transactionPolicyActive)
          = Inr (?m, [])
      \<and> ei_CloseStatus (mu_ExecutionInfo ?m) = WorkflowCloseStatusContinuedAsNew
      \<and> mu_ReplicationTasks ?m \<noteq> []"
    by (simp add: sample_defs)
  have n: "fst (CloseTransactionAsSnapshot scriptedOps eventfulState 0 transactionPolicyActive)
          = Inr (sampleSnapshot [], [sampleBatch ''R1'' [\<lparr>EventId = 7, Version = 0\<rparr>]])
      \<and> length (sn_ReplicationTasks (sampleSnapshot [])) \<noteq> 1"
    by (simp add: sample_defs)
  have e: "fst (updateWorkflowExecutionWithNew ?S scriptedOps ?c 0 None None
                 transactionPolicyActive None emptyWorld)
     = Return (Some (InternalServiceError
         ''unable to find replication task from new workflow for continue as new replication''))"
    by (simp add: run_defs sample_defs)
  from continue_as_new_merge
         [where c = ?c and ?ms0.0 = continuedState and M = scriptedOps and now = 0
            and pol = transactionPolicyActive and m = ?m and workflowEventsSeq = "[]"
            and newContext = None and newMutableState = None and newPolicy = None
            and S = ?S and w = emptyWorld,
          THEN conjunct2, THEN conjunct2, THEN conjunct1] h
  have a: "\<not> list_ex isUpdateCall (calls (snd (snd (snd (updateWorkflowExecutionWithNew
          ?S scriptedOps ?c 0 None None transactionPolicyActive None emptyWorld)))))"
    by (simp add: emptyWorld_def)
  from continue_as_new_merge
         [where c = ?c and ?ms0.0 = continuedState and M = scriptedOps and now = 0
            and pol = transactionPolicyActive and m = ?m and workflowEventsSeq = "[]"
            and nms = eventfulState and np = transactionPolicyActive
            and snapshot = "sampleSnapshot []"
            and newEventsSeq = "[sampleBatch ''R1'' [\<lparr>EventId = 7, Version = 0\<rparr>]]"
            and nc = "sampleContext None 0"
            and S = ?S and w = emptyWorld,
          THEN conjunct2, THEN conjunct2, THEN conjunct2, THEN conjunct1] h n
  have b: "fst (updateWorkflowExecutionWithNew ?S scriptedOps ?c 0 (Some (sampleContext None 0))
          (Some eventfulState) transactionPolicyActive (Some transactionPolicyActive)
          emptyWorld) \<noteq> Return None
     \<and> \<not> list_ex isUpdateCall (calls (snd (snd (snd (updateWorkflowExecutionWithNew
          ?S scriptedOps ?c 0 (Some (sampleContext None 0)) (Some eventfulState)
          transactionPolicyActive (Some transactionPolicyActive) emptyWorld)))))"
    by (simp add: emptyWorld_def)
  let ?U = "updateWorkflowExecutionWithNew (scriptedShard (\<lambda>n. None)) scriptedOps
          (sampleContext (Some continuedState) 10) 0 (Some (sampleContext None 0))
          (Some newRunState) transactionPolicyActive (Some transactionPolicyActive)
          emptyWorld"
  have g: "msBuilder (sampleContext (Some continuedState) 10) = Some continuedState
      \<and> fst (CloseTransactionAsMutation scriptedOps continuedState 0 transactionPolicyActive)
          = Inr (?m, [])
      \<and> ei_CloseStatus (mu_ExecutionInfo ?m) = WorkflowCloseStatusContinuedAsNew
      \<and> mu_ReplicationTasks ?m \<noteq> []
      \<and> fst (CloseTransactionAsSnapshot scriptedOps newRunState 0 transactionPolicyActive)
          = Inr (sampleSnapshot [HistoryReplication (sampleHistoryTask [1, 2] 2)],
                 [sampleBatch ''R2'' [\<lparr>EventId = 1, Version = 0\<rparr>]])
      \<and> sn_ReplicationTasks (sampleSnapshot [HistoryReplication (sampleHistoryTask [1, 2] 2)])
          = [HistoryReplication (sampleHistoryTask [1, 2] 2)]
      \<and> ?U = (fst ?U, fst (snd ?U), fst (snd (snd ?U)), snd (snd (snd ?U)))"
    by (simp add: sample_defs)
  have u1: "fst ?U = Return None"
    by (simp add: run_defs sample_defs)
  have u2: "last (calls (snd (snd (snd ?U))))
       = CallUpdateWorkflowExecution (mergedRequest
            (sampleMutation 12 WorkflowCloseStatusContinuedAsNew
               [HistoryReplication (sampleHistoryTask [] 0)])
            (sampleSnapshot [HistoryReplication (sampleHistoryTask [1, 2] 2)])
            (sampleHistoryTask [1, 2] 2) 50 150)"
    by (simp add: run_defs sample_defs mergedRequest_def stampNewRun_def)
  from continue_as_new_merge
         [where c = ?c and ?ms0.0 = continuedState and M = scriptedOps and now = 0
            and pol = transactionPolicyActive and m = ?m and workflowEventsSeq = "[]"
            and nms = newRunState and np = transactionPolicyActive
            and snapshot = "sampleSnapshot [HistoryReplication (sampleHistoryTask [1, 2] 2)]"
            and newEventsSeq = "[sampleBatch ''R2'' [\<lparr>EventId = 1, Version = 0\<rparr>]]"
            and t = "sampleHistoryTask [1, 2] 2"
            and nc = "sampleContext None 0" and S = ?S and w = emptyWorld
            and r = "fst ?U" and c' = "fst (snd ?U)" and nc' = "fst (snd (snd ?U))"
            and w' = "snd (snd (snd ?U))",
          THEN conjunct2, THEN conjunct2, THEN conjunct2, THEN conjunct2, THEN conjunct2,
          rule_format, OF g] u1
  have u3: "\<exists>k j. last (calls (snd (snd (snd ?U))))
       = CallUpdateWorkflowExecution (mergedRequest
            (sampleMutation 12 WorkflowCloseStatusContinuedAsNew
               [HistoryReplication (sampleHistoryTask [] 0)])
            (sampleSnapshot [HistoryReplication (sampleHistoryTask [1, 2] 2)])
            (sampleHistoryTask [1, 2] 2) k j)"
    by blast
  have u4: "mu_ReplicationTasks (ur_UpdateWorkflowMutation (mergedRequest
            (sampleMutation 12 WorkflowCloseStatusContinuedAsNew
               [HistoryReplication (sampleHistoryTask [] 0)])
            (sampleSnapshot [HistoryReplication (sampleHistoryTask [1, 2] 2)])
            (sampleHistoryTask [1, 2] 2) 50 150))
       = [HistoryReplication ((sampleHistoryTask [] 0)
            \<lparr>hrt_NewRunBranchToken := [1, 2], hrt_NewRunEventStoreVersion := 2\<rparr>)]"
    by (simp add: mergedRequest_def sampleMutation_def sampleHistoryTask_def stampNewRun_def)
  from p e a b u1 u2 u3 u4 show ?thesis
    by (elim conjE) (intro conjI, assumption+)
qed

text \<open>
  The claim as stated fails when the one replication task of the new snapshot is not a
  history replication task: the merge panics, and the snapshot keeps its task.
\<close>

theorem merge_single_other_task_counterexample:
  "length (sn_ReplicationTasks (sampleSnapshot [OtherKind sampleOtherTask])) = 1
   \<and> mergeContinueAsNewReplicationTasks
        (sampleMutation 12 WorkflowCloseStatusContinuedAsNew
           [HistoryReplication (sampleHistoryTask [] 0)])
        (Some (sampleSnapshot [OtherKind sampleOtherTask]))
      = (Panic InterfaceConversion,
         sampleMutation 12 WorkflowCloseStatusContinuedAsNew
           [HistoryReplication (sampleHistoryTask [] 0)],
         Some (sampleSnapshot [OtherKind sampleOtherTask]))
   \<and> sn_ReplicationTasks (sampleSnapshot [OtherKind sampleOtherTask]) \<noteq> []"
  by (simp add: mergeContinueAsNewReplicationTasks_def sampleMutation_def sampleSnapshot_def
        sampleInfo_def)

subsection \<open>The update condition after a successful update\<close>



subsection \<open>Load and the cache\<close>

text \<open>
  Claim C8, as the code has it. With a mutable state cached, a load issues no storage
  call and leaves the world as it was; it runs the replication policy hook on the cached
  state.
  \<^item> Where the hook does not apply (global domains off, no replication state, or the
    workflow not running), the load returns the cached mutable state and the context is
    unchanged.
  \<^item> Where the hook applies and the domain lookup succeeds, the load returns the cached
    mutable state stamped with the domain's failover version and replication policy,
    and that stamped state is what the context then caches; nothing else of the context
    changes.
  \<^item> Where the hook applies and the domain lookup fails, the load returns that error and
    no mutable state, and the context is unchanged.
  A load from an empty cache that returns a mutable state has made one fetch through the
  retry harness (between one and one plus \<open>retryAttempts\<close> calls of the same request),
  and the load that follows it leaves the world as it was.
\<close>

theorem load_uses_cache:
  "(msBuilder c = Some ms
      \<and> \<not> (IsGlobalDomainEnabled S \<and> GetReplicationState M ms \<noteq> None
             \<and> IsWorkflowExecutionRunning M ms)
    \<longrightarrow> loadWorkflowExecution S M c w = (Return (Some ms, None), c, w))
   \<and> (msBuilder c = Some ms
      \<and> IsGlobalDomainEnabled S \<and> GetReplicationState M ms \<noteq> None
      \<and> IsWorkflowExecutionRunning M ms
      \<and> GetDomainByID S (domainID c) = Inr domainEntry
    \<longrightarrow> loadWorkflowExecution S M c w =
          (Return (Some (UpdateReplicationPolicy M
                           (UpdateReplicationStateVersion M ms
                              (de_FailoverVersion domainEntry) False)
                           (de_ReplicationPolicy domainEntry)), None),
           c\<lparr>msBuilder := Some (UpdateReplicationPolicy M
                           (UpdateReplicationStateVersion M ms
                              (de_FailoverVersion domainEntry) False)
                           (de_ReplicationPolicy domainEntry))\<rparr>,
           w))
   \<and> (msBuilder c = Some ms
      \<and> IsGlobalDomainEnabled S \<and> GetReplicationState M ms \<noteq> None
      \<and> IsWorkflowExecutionRunning M ms
      \<and> GetDomainByID S (domainID c) = Inl err
    \<longrightarrow> loadWorkflowExecution S M c w = (Return (None, Some err), c, w))
   \<and> (msBuilder c = None \<and> loadWorkflowExecution S M c w = (Return (Some ms1, None), c1, w1) \<longrightarrow>
        (\<exists>n. 1 \<le> n \<and> n \<le> Suc (retryAttempts S)
            \<and> calls w1 = calls w @ replicate n (CallGetWorkflowExecution
                 \<lparr>gr_DomainID = domainID c, gr_Execution = workflowExecution c\<rparr>))
        \<and> snd (snd (loadWorkflowExecution S M c1 w1)) = w1)"
proof -
  have off: "msBuilder c = Some ms
      \<and> \<not> (IsGlobalDomainEnabled S \<and> GetReplicationState M ms \<noteq> None
             \<and> IsWorkflowExecutionRunning M ms)
    \<longrightarrow> loadWorkflowExecution S M c w = (Return (Some ms, None), c, w)"
    by (auto simp: load_cached_cases)
  have stamped: "msBuilder c = Some ms
      \<and> IsGlobalDomainEnabled S \<and> GetReplicationState M ms \<noteq> None
      \<and> IsWorkflowExecutionRunning M ms
      \<and> GetDomainByID S (domainID c) = Inr domainEntry
    \<longrightarrow> loadWorkflowExecution S M c w =
          (Return (Some (UpdateReplicationPolicy M
                           (UpdateReplicationStateVersion M ms
                              (de_FailoverVersion domainEntry) False)
                           (de_ReplicationPolicy domainEntry)), None),
           c\<lparr>msBuilder := Some (UpdateReplicationPolicy M
                           (UpdateReplicationStateVersion M ms
                              (de_FailoverVersion domainEntry) False)
                           (de_ReplicationPolicy domainEntry))\<rparr>,
           w)"
    by (auto simp: load_cached_cases)
  have failed: "msBuilder c = Some ms
      \<and> IsGlobalDomainEnabled S \<and> GetReplicationState M ms \<noteq> None
      \<and> IsWorkflowExecutionRunning M ms
      \<and> GetDomainByID S (domainID c) = Inl err
    \<longrightarrow> loadWorkflowExecution S M c w = (Return (None, Some err), c, w)"
    by (auto simp: load_cached_cases)
  have twice: "msBuilder c = None
      \<and> loadWorkflowExecution S M c w = (Return (Some ms1, None), c1, w1) \<longrightarrow>
        (\<exists>n. 1 \<le> n \<and> n \<le> Suc (retryAttempts S)
            \<and> calls w1 = calls w @ replicate n (CallGetWorkflowExecution
                 \<lparr>gr_DomainID = domainID c, gr_Execution = workflowExecution c\<rparr>))
        \<and> snd (snd (loadWorkflowExecution S M c1 w1)) = w1"
  proof (intro impI, elim conjE)
    assume a1: "msBuilder c = None"
      and a2: "loadWorkflowExecution S M c w = (Return (Some ms1, None), c1, w1)"
    note lf = load_fetches[OF a1 a2]
    from lf have "msBuilder c1 = Some ms1" by (rule conjunct2)
    from load_cached[OF this, of S M w1]
    have "snd (snd (loadWorkflowExecution S M c1 w1)) = w1" by auto
    with lf show "(\<exists>n. 1 \<le> n \<and> n \<le> Suc (retryAttempts S)
            \<and> calls w1 = calls w @ replicate n (CallGetWorkflowExecution
                 \<lparr>gr_DomainID = domainID c, gr_Execution = workflowExecution c\<rparr>))
        \<and> snd (snd (loadWorkflowExecution S M c1 w1)) = w1"
      by blast
  qed
  from off stamped failed twice show ?thesis
    by (intro conjI)
qed

theorem load_uses_cache_witness:
  "loadWorkflowExecution (scriptedShard (\<lambda>n. None)) scriptedOps
      (sampleContext (Some quietState) 7) emptyWorld
     = (Return (Some quietState, None), sampleContext (Some quietState) 7, emptyWorld)
   \<and> loadWorkflowExecution domainShard scriptedOps (sampleContext (Some replicatedState) 7)
        emptyWorld
     = (Return (Some (replicatedState\<lparr>sm_replicationState :=
                        Some \<lparr>rs_CurrentVersion = 9, rs_LastWriteVersion = 1\<rparr>\<rparr>), None),
        (sampleContext (Some replicatedState) 7)
          \<lparr>msBuilder := Some (replicatedState\<lparr>sm_replicationState :=
                        Some \<lparr>rs_CurrentVersion = 9, rs_LastWriteVersion = 1\<rparr>\<rparr>)\<rparr>,
        emptyWorld)
   \<and> loadWorkflowExecution globalShard scriptedOps (sampleContext (Some replicatedState) 7)
        emptyWorld
     = (Return (None, Some EntityNotExistsError), sampleContext (Some replicatedState) 7,
        emptyWorld)
   \<and> loadWorkflowExecution (scriptedShard (\<lambda>n. None)) scriptedOps (sampleContext None 0)
        emptyWorld
     = (Return (Some (newMutableStateBuilderLoad scriptedOps sampleState), None),
        (sampleContext None 0)
          \<lparr>msBuilder := Some (newMutableStateBuilderLoad scriptedOps sampleState),
           stats := Some \<lparr>HistorySize = 50\<rparr>, updateCondition := 7\<rparr>,
        emptyWorld\<lparr>calls := [CallGetWorkflowExecution
          \<lparr>gr_DomainID = ''D'', gr_Execution = \<lparr>WorkflowId = ''W'', RunId = ''R1''\<rparr>\<rparr>]\<rparr>)
   \<and> snd (snd (loadWorkflowExecution (scriptedShard (\<lambda>n. None)) scriptedOps
        ((sampleContext None 0)
          \<lparr>msBuilder := Some (newMutableStateBuilderLoad scriptedOps sampleState),
           stats := Some \<lparr>HistorySize = 50\<rparr>, updateCondition := 7\<rparr>)
        (emptyWorld\<lparr>calls := [CallGetWorkflowExecution
          \<lparr>gr_DomainID = ''D'', gr_Execution = \<lparr>WorkflowId = ''W'', RunId = ''R1''\<rparr>\<rparr>]\<rparr>)))
     = emptyWorld\<lparr>calls := [CallGetWorkflowExecution
          \<lparr>gr_DomainID = ''D'', gr_Execution = \<lparr>WorkflowId = ''W'', RunId = ''R1''\<rparr>\<rparr>]\<rparr>"
proof -
  let ?S = "scriptedShard (\<lambda>n. None)"
  let ?c1 = "(sampleContext None 0)
          \<lparr>msBuilder := Some (newMutableStateBuilderLoad scriptedOps sampleState),
           stats := Some \<lparr>HistorySize = 50\<rparr>, updateCondition := 7\<rparr>"
  let ?w1 = "emptyWorld\<lparr>calls := [CallGetWorkflowExecution
          \<lparr>gr_DomainID = ''D'', gr_Execution = \<lparr>WorkflowId = ''W'', RunId = ''R1''\<rparr>\<rparr>]\<rparr>"
  let ?d = "\<lparr>de_Name = ''domain'', de_FailoverVersion = 9, de_ReplicationPolicy = 1\<rparr>"
  have hoff: "msBuilder (sampleContext (Some quietState) 7) = Some quietState
      \<and> \<not> (IsGlobalDomainEnabled ?S \<and> GetReplicationState scriptedOps quietState \<noteq> None
             \<and> IsWorkflowExecutionRunning scriptedOps quietState)"
    by (simp add: sample_defs)
  have hon: "msBuilder (sampleContext (Some replicatedState) 7) = Some replicatedState
      \<and> IsGlobalDomainEnabled domainShard
      \<and> GetReplicationState scriptedOps replicatedState \<noteq> None
      \<and> IsWorkflowExecutionRunning scriptedOps replicatedState
      \<and> GetDomainByID domainShard (domainID (sampleContext (Some replicatedState) 7)) = Inr ?d"
    by (simp add: sample_defs)
  have hfail: "msBuilder (sampleContext (Some replicatedState) 7) = Some replicatedState
      \<and> IsGlobalDomainEnabled globalShard
      \<and> GetReplicationState scriptedOps replicatedState \<noteq> None
      \<and> IsWorkflowExecutionRunning scriptedOps replicatedState
      \<and> GetDomainByID globalShard (domainID (sampleContext (Some replicatedState) 7))
          = Inl EntityNotExistsError"
    by (simp add: sample_defs)
  have empty: "msBuilder (sampleContext None 0) = None"
    by (simp add: sampleContext_def)
  have first: "loadWorkflowExecution ?S scriptedOps (sampleContext None 0) emptyWorld
     = (Return (Some (newMutableStateBuilderLoad scriptedOps sampleState), None), ?c1, ?w1)"
    by (simp add: load_defs scriptedShard_def sampleContext_def emptyWorld_def sampleState_def
          sampleInfo_def)
  from load_uses_cache[where c = "sampleContext (Some quietState) 7" and ms = quietState
         and S = ?S and M = scriptedOps and w = emptyWorld,
       THEN conjunct1, rule_format, OF hoff]
  have one: "loadWorkflowExecution ?S scriptedOps (sampleContext (Some quietState) 7) emptyWorld
     = (Return (Some quietState, None), sampleContext (Some quietState) 7, emptyWorld)" .
  from load_uses_cache[where c = "sampleContext (Some replicatedState) 7"
         and ms = replicatedState and S = domainShard and M = scriptedOps and w = emptyWorld
         and domainEntry = ?d,
       THEN conjunct2, THEN conjunct1, rule_format, OF hon]
  have two: "loadWorkflowExecution domainShard scriptedOps
        (sampleContext (Some replicatedState) 7) emptyWorld
     = (Return (Some (replicatedState\<lparr>sm_replicationState :=
                        Some \<lparr>rs_CurrentVersion = 9, rs_LastWriteVersion = 1\<rparr>\<rparr>), None),
        (sampleContext (Some replicatedState) 7)
          \<lparr>msBuilder := Some (replicatedState\<lparr>sm_replicationState :=
                        Some \<lparr>rs_CurrentVersion = 9, rs_LastWriteVersion = 1\<rparr>\<rparr>)\<rparr>,
        emptyWorld)"
    by (simp add: scriptedOps_def replicatedState_def quietState_def scriptedState_def)
  from load_uses_cache[where c = "sampleContext (Some replicatedState) 7"
         and ms = replicatedState and S = globalShard and M = scriptedOps and w = emptyWorld
         and err = EntityNotExistsError,
       THEN conjunct2, THEN conjunct2, THEN conjunct1, rule_format, OF hfail]
  have three: "loadWorkflowExecution globalShard scriptedOps
        (sampleContext (Some replicatedState) 7) emptyWorld
     = (Return (None, Some EntityNotExistsError), sampleContext (Some replicatedState) 7,
        emptyWorld)" .
  from load_uses_cache[where c = "sampleContext None 0" and S = ?S and M = scriptedOps
         and w = emptyWorld and ?ms1.0 = "newMutableStateBuilderLoad scriptedOps sampleState"
         and ?c1.0 = ?c1 and ?w1.0 = ?w1,
       THEN conjunct2, THEN conjunct2, THEN conjunct2, rule_format, OF conjI, OF empty first]
  have four: "snd (snd (loadWorkflowExecution ?S scriptedOps ?c1 ?w1)) = ?w1"
    by (rule conjunct2)
  from one two three first four show ?thesis
    by (intro conjI)
qed

text \<open>
  The claim as stated fails when the hook's domain lookup fails: the load of a context
  with a cached mutable state returns the error and no mutable state.
\<close>

theorem load_cached_hook_error_counterexample:
  "msBuilder (sampleContext (Some replicatedState) 7) = Some replicatedState
   \<and> loadWorkflowExecution globalShard scriptedOps (sampleContext (Some replicatedState) 7)
        emptyWorld
     = (Return (None, Some EntityNotExistsError), sampleContext (Some replicatedState) 7,
        emptyWorld)"
  by (simp add: load_defs sample_defs)

subsection \<open>The unchecked index into the new run's batches\<close>

text \<open>
  Claim C9. A paired update panics with an index out of range exactly when steps 1 and
  2 succeeded, the new context has stats, and the close of the new mutable state
  succeeded with an empty sequence of event batches: the code indexes position 0 of the
  sequence without a check. When the close produces at least one batch, there is no
  such panic.
\<close>

theorem paired_update_index_panic:
  "fst (updateWorkflowExecutionWithNew S M c now (Some newContext) (Some newMutableState) pol
          (Some newPolicy) w) = Panic IndexOutOfRange
   \<longleftrightarrow> reachesNewRun S M c now pol w \<and> stats newContext \<noteq> None
       \<and> (\<exists>snap. fst (CloseTransactionAsSnapshot M newMutableState now newPolicy)
                   = Inr (snap, []))"
  unfolding update_fst
  unfolding updateWorkflowExecutionWithNewBody_def reachesNewRun_def getHistorySize_def
    setHistorySize_def Let_def
  by (auto split: option.splits prod.splits sum.splits outcome.splits
        dest: commitUpdate_panic closeNewWorkflow_oob_D simp: closeNewWorkflow_oob_I)

theorem paired_update_index_panic_witness:
  "fst (updateWorkflowExecutionWithNew (scriptedShard (\<lambda>n. None)) scriptedOps
          (sampleContext (Some quietState) 7) 0 (Some (sampleContext (Some quietState) 3))
          (Some quietState) transactionPolicyActive (Some transactionPolicyActive) emptyWorld)
     = Panic IndexOutOfRange
   \<and> fst (CloseTransactionAsSnapshot scriptedOps quietState 0 transactionPolicyActive)
       = Inr (sampleSnapshot [], [])
   \<and> fst (updateWorkflowExecutionWithNew (scriptedShard (\<lambda>n. None)) scriptedOps
          (sampleContext (Some quietState) 7) 0 (Some (sampleContext (Some eventfulState) 3))
          (Some eventfulState) transactionPolicyActive (Some transactionPolicyActive) emptyWorld)
     \<noteq> Panic IndexOutOfRange"
  using paired_update_index_panic
          [of "scriptedShard (\<lambda>n. None)" scriptedOps "sampleContext (Some quietState) 7" 0
              "sampleContext (Some quietState) 3" quietState transactionPolicyActive
              transactionPolicyActive emptyWorld]
        paired_update_index_panic
          [of "scriptedShard (\<lambda>n. None)" scriptedOps "sampleContext (Some quietState) 7" 0
              "sampleContext (Some eventfulState) 3" eventfulState transactionPolicyActive
              transactionPolicyActive emptyWorld]
  by (simp add: reachesNewRun_def sample_defs)

end
